theory Spec2Isabelle
  imports Complex_Main
begin

section \<open>JavaScript values handled by the todo backend\<close>

text \<open>
  The backend (\<^verbatim>\<open>todo-app/backend/app.js\<close>) only ever handles values that come out of
  \<^verbatim>\<open>JSON.parse\<close> (the request body, the content of \<^verbatim>\<open>data.json\<close>) and the values
  it builds itself from strings and \<^verbatim>\<open>false\<close>. An object is the list of its properties
  in the order in which they are enumerated. A property that is not there reads as
  \<^verbatim>\<open>undefined\<close>, which is \<open>None\<close> here; \<^verbatim>\<open>null\<close> is the value \<open>JNull\<close>.

  A number is a double: a finite one, carried by its value, the negative zero, or one of
  the two infinities, which \<^verbatim>\<open>JSON.parse\<close> returns for a literal beyond the range.
  \<^verbatim>\<open>NaN\<close> never comes out of \<^verbatim>\<open>JSON.parse\<close>. A string is a list of code units; the
  model covers the code units below 256, which is what \<^typ>\<open>char\<close> holds.
\<close>

datatype number = Finite rat | NegZero | PosInfinity | NegInfinity

datatype json =
    JNull
  | JBool bool
  | JNum number
  | JStr string
  | JArr "json list"
  | JObj "(string \<times> json) list"

text \<open>What the code can throw: a \<^verbatim>\<open>TypeError\<close> of the language, a \<^verbatim>\<open>SyntaxError\<close> of
  \<^verbatim>\<open>JSON.parse\<close>, a rejection of \<^verbatim>\<open>fs.readFile\<close> or \<^verbatim>\<open>fs.writeFile\<close>.\<close>

datatype exn = TypeError | SyntaxError | IOError

text \<open>Reading a property, \<^verbatim>\<open>v.k\<close> or \<^verbatim>\<open>const { k } = v\<close>, for the property names the
  handlers read (\<^verbatim>\<open>id\<close>, \<^verbatim>\<open>text\<close>, \<^verbatim>\<open>completed\<close>): it throws on \<^verbatim>\<open>null\<close>, looks an
  object's property up, and is \<^verbatim>\<open>undefined\<close> on an array, a string, a number and a
  boolean, none of which has a property of these names.\<close>

fun get_prop :: "json \<Rightarrow> string \<Rightarrow> exn + json option" where
  "get_prop JNull k = Inl TypeError"
| "get_prop (JObj kvs) k = Inr (map_of kvs k)"
| "get_prop v k = Inr None"

text \<open>Assigning a property of an object: an existing property keeps its place, a new one
  goes to the end.\<close>

primrec assign :: "string \<Rightarrow> json \<Rightarrow> (string \<times> json) list \<Rightarrow> (string \<times> json) list" where
  "assign k v [] = [(k, v)]"
| "assign k v (p # ps) = (if fst p = k then (k, v) # ps else p # assign k v ps)"

text \<open>\<^verbatim>\<open>o.k = v\<close>: it throws on \<^verbatim>\<open>null\<close>; on a primitive it is ignored (the module is not
  in strict mode); on an array it sets a property that \<^verbatim>\<open>JSON.stringify\<close> leaves out.\<close>

fun set_prop :: "json \<Rightarrow> string \<Rightarrow> json \<Rightarrow> exn + json" where
  "set_prop JNull k v = Inl TypeError"
| "set_prop (JObj kvs) k v = Inr (JObj (assign k v kvs))"
| "set_prop w k v = Inr w"

text \<open>\<^verbatim>\<open>!v\<close> is false exactly for the truthy values.\<close>

fun nonzero :: "number \<Rightarrow> bool" where
  "nonzero (Finite q) = (q \<noteq> 0)"
| "nonzero NegZero = False"
| "nonzero PosInfinity = True"
| "nonzero NegInfinity = True"

fun truthy :: "json \<Rightarrow> bool" where
  "truthy JNull = False"
| "truthy (JBool b) = b"
| "truthy (JNum n) = nonzero n"
| "truthy (JStr s) = (s \<noteq> [])"
| "truthy (JArr xs) = True"
| "truthy (JObj kvs) = True"

text \<open>\<^verbatim>\<open>String.prototype.trim\<close>: white space and line terminators among the code units
  below 256 are TAB, LF, VT, FF, CR, SP and NBSP.\<close>

definition is_space :: "char \<Rightarrow> bool" where
  "is_space c = (c \<in> set [CHR 0x09, CHR 0x0A, CHR 0x0B, CHR 0x0C, CHR 0x0D, CHR 0x20, CHR 0xA0])"

definition trim :: "string \<Rightarrow> string" where
  "trim s = rev (dropWhile is_space (rev (dropWhile is_space s)))"

text \<open>\<^verbatim>\<open>text.trim()\<close> on a value: only a string has the method. \<^verbatim>\<open>null.trim\<close> throws,
  and on every other value \<^verbatim>\<open>trim\<close> is \<^verbatim>\<open>undefined\<close> or, for an object with a property
  of that name, a JSON value: calling it throws.\<close>

fun call_trim :: "json \<Rightarrow> exn + string" where
  "call_trim (JStr s) = Inr (trim s)"
| "call_trim v = Inl TypeError"

text \<open>The conversion to a string that a template literal \<^verbatim>\<open>`${v}`\<close> makes. Only whether it
  throws matters, since the string goes to the console. It throws for an object with a
  property \<^verbatim>\<open>toString\<close> of its own: that property is a JSON value and cannot be
  called, and \<^verbatim>\<open>Object.prototype.valueOf\<close>, tried next, returns the object, or the object
  has a \<^verbatim>\<open>valueOf\<close> of its own that cannot be called either. An array is joined, which
  converts its elements other than \<^verbatim>\<open>null\<close>. Every other value, and \<^verbatim>\<open>undefined\<close>, has
  a string.\<close>

fun ToString_throws :: "json \<Rightarrow> bool" where
  "ToString_throws (JObj kvs) = (map_of kvs ''toString'' \<noteq> None)"
| "ToString_throws (JArr xs) = list_ex ToString_throws xs"
| "ToString_throws v = False"

fun interpolate :: "json option \<Rightarrow> exn + unit" where
  "interpolate None = Inr ()"
| "interpolate (Some v) = (if ToString_throws v then Inl TypeError else Inr ())"

text \<open>\<^verbatim>\<open>Number.prototype.toString\<close> on an integer: its decimal digits.\<close>

definition digit :: "nat \<Rightarrow> char" where
  "digit n = ''0123456789'' ! n"

fun toString_nat :: "nat \<Rightarrow> string" where
  "toString_nat n = (if n < 10 then [digit n] else toString_nat (n div 10) @ [digit (n mod 10)])"

definition toString :: "int \<Rightarrow> string" where
  "toString i = (if i < 0 then CHR ''-'' # toString_nat (nat (- i)) else toString_nat (nat i))"

section \<open>JSON texts\<close>

text \<open>
  A JSON text is kept as its syntax tree. A number literal is a sign and a magnitude. An
  object lists each member once, in the order in which the parsed object enumerates them.
  \<^verbatim>\<open>JSON.parse\<close> and \<^verbatim>\<open>JSON.stringify\<close> belong to the runtime, not to the repository;
  what follows is what the language standard says of them on these trees.

  \<^verbatim>\<open>JSON.parse\<close> rounds a literal to the nearest double. A magnitude from
  \<^verbatim>\<open>2^1024 - 2^970\<close> on rounds to an infinity, one up to \<^verbatim>\<open>2^-1075\<close> to a zero, which is
  the negative zero under a minus sign. Between the two the literal is taken to be a
  double: the rounding there does not change what is read after writing.
\<close>

datatype numlit = Lit bool rat

datatype jtext =
    TNull
  | TBool bool
  | TNum numlit
  | TStr string
  | TArr "jtext list"
  | TObj "(string \<times> jtext) list"

definition overflow_from :: rat where
  "overflow_from = 2 ^ 1024 - 2 ^ 970"

definition underflow_upto :: rat where
  "underflow_upto = 1 / 2 ^ 1075"

fun number_of :: "numlit \<Rightarrow> number" where
  "number_of (Lit neg m) =
     (if overflow_from \<le> \<bar>m\<bar> then (if neg then NegInfinity else PosInfinity)
      else if \<bar>m\<bar> \<le> underflow_upto then (if neg then NegZero else Finite 0)
      else Finite (if neg then - \<bar>m\<bar> else \<bar>m\<bar>))"

fun value_of :: "jtext \<Rightarrow> json" where
  "value_of TNull = JNull"
| "value_of (TBool b) = JBool b"
| "value_of (TNum l) = JNum (number_of l)"
| "value_of (TStr s) = JStr s"
| "value_of (TArr ts) = JArr (map value_of ts)"
| "value_of (TObj ms) = JObj (map (map_prod id value_of) ms)"

text \<open>\<^verbatim>\<open>JSON.stringify\<close> writes an infinity as \<^verbatim>\<open>null\<close> and the negative zero as \<^verbatim>\<open>0\<close>.
  The indentation it is called with does not change the tree.\<close>

fun literal_of :: "number \<Rightarrow> jtext" where
  "literal_of (Finite q) = TNum (Lit (q < 0) \<bar>q\<bar>)"
| "literal_of NegZero = TNum (Lit False 0)"
| "literal_of PosInfinity = TNull"
| "literal_of NegInfinity = TNull"

fun JSON_stringify :: "json \<Rightarrow> jtext" where
  "JSON_stringify JNull = TNull"
| "JSON_stringify (JBool b) = TBool b"
| "JSON_stringify (JNum n) = literal_of n"
| "JSON_stringify (JStr s) = TStr s"
| "JSON_stringify (JArr xs) = TArr (map JSON_stringify xs)"
| "JSON_stringify (JObj kvs) = TObj (map (map_prod id JSON_stringify) kvs)"

text \<open>The content of a file: a JSON text or not.\<close>

datatype content = NotJSON | JSONText jtext

fun JSON_parse :: "content \<Rightarrow> exn + json" where
  "JSON_parse NotJSON = Inl SyntaxError"
| "JSON_parse (JSONText t) = Inr (value_of t)"

section \<open>The environment of a request\<close>

text \<open>
  \<^verbatim>\<open>data.json\<close> is there or not, and can be read or not. \<open>writeFile_calls\<close> counts the
  calls of \<^verbatim>\<open>fs.writeFile\<close> on the file. The program never reads it; it is there to
  state that a handler has not written.
\<close>

datatype file_state = Absent | Unreadable | Readable content

record disk =
  DATA_FILE :: file_state
  writeFile_calls :: nat

text \<open>\<^verbatim>\<open>fs.writeFile\<close> resolves, or rejects: before the file is opened, which leaves it
  untouched; while writing, which leaves a beginning of the text; or when closing, with
  the whole text written. A beginning of the text of an array, which is what the handlers
  write, of an object, of a string, or of \<^verbatim>\<open>true\<close>, \<^verbatim>\<open>false\<close> or \<^verbatim>\<open>null\<close> is not a JSON
  text; a beginning of the text of a number can be the text of another number, which the
  outcome then names.\<close>

datatype writeFile_outcome =
    Resolves
  | Rejects_untouched
  | Rejects_cut_short "numlit option"
  | Rejects_written

fun cut_short :: "jtext \<Rightarrow> numlit option \<Rightarrow> content" where
  "cut_short (TNum l) (Some l') = JSONText (TNum l')"
| "cut_short t left = NotJSON"

text \<open>What a handler reads from the outside while it runs: \<^verbatim>\<open>process.env.NODE_ENV\<close>, the
  clock, the random number generator, and what becomes of \<^verbatim>\<open>fs.writeFile\<close>.\<close>

record env =
  NODE_ENV :: "string option"
  Date_now :: int  \<comment> \<open>\<^verbatim>\<open>Date.now()\<close>\<close>
  toISOString :: string  \<comment> \<open>\<^verbatim>\<open>new Date().toISOString()\<close>\<close>
  Math_random_36 :: string  \<comment> \<open>\<^verbatim>\<open>Math.random().toString(36)\<close>\<close>
  writeFile :: writeFile_outcome

text \<open>An answer: the status of \<^verbatim>\<open>res.status\<close> (200 where the handler sets none) and the
  value handed to \<^verbatim>\<open>res.json\<close>.\<close>

record response =
  statusCode :: nat
  body :: json

definition json_response :: "nat \<Rightarrow> json \<Rightarrow> response" where
  "json_response code v = \<lparr>statusCode = code, body = v\<rparr>"

definition error_body :: "string \<Rightarrow> json" where
  "error_body msg = JObj [(''error'', JStr msg)]"

section \<open>Logging\<close>

text \<open>
  Every \<^verbatim>\<open>console.log\<close> of the handlers is under \<^verbatim>\<open>process.env.NODE_ENV !== "test"\<close>.
  Most log lines print the request identifier, the path parameter, a count or
  \<^verbatim>\<open>JSON.stringify\<close> of a value, and cannot throw. Three of them put a value of the
  request or of the file into a template literal, which throws where the value has no
  string: they are the ones modelled. A log line does nothing else that the handlers or
  the file can see.
\<close>

definition logging :: "env \<Rightarrow> bool" where
  "logging e = (NODE_ENV e \<noteq> Some ''test'')"

text \<open>\<^verbatim>\<open>Todo text: "${req.body.text}"\<close>, in the create handler before its \<^verbatim>\<open>try\<close>.\<close>

definition log_text :: "env \<Rightarrow> json \<Rightarrow> exn + unit" where
  "log_text e req_body =
     (if logging e
      then (case get_prop req_body ''text'' of
              Inl err \<Rightarrow> Inl err
            | Inr tx \<Rightarrow> interpolate tx)
      else Inr ())"

text \<open>\<^verbatim>\<open>Updating text from "${todos[todoIndex].text}" to "${text.trim()}"\<close> and
  \<^verbatim>\<open>Updating completed status from ${todos[todoIndex].completed} to ${completed}\<close>, in
  the update handler: the property \<open>k\<close> of the item as it is, then the new value.\<close>

definition log_change :: "env \<Rightarrow> json \<Rightarrow> string \<Rightarrow> json \<Rightarrow> exn + unit" where
  "log_change e todo k new =
     (if logging e
      then (case get_prop todo k of
              Inl err \<Rightarrow> Inl err
            | Inr old \<Rightarrow>
                (case interpolate old of
                   Inl err \<Rightarrow> Inl err
                 | Inr u \<Rightarrow> interpolate (Some new)))
      else Inr ())"

section \<open>Store accessor\<close>

text \<open>\<^verbatim>\<open>await fs.readFile(DATA_FILE, "utf8")\<close>\<close>

fun readFile :: "file_state \<Rightarrow> exn + content" where
  "readFile Absent = Inl IOError"
| "readFile Unreadable = Inl IOError"
| "readFile (Readable data) = Inr data"

text \<open>\<^verbatim>\<open>readTodos\<close>: every exception is caught and answered with the empty array.\<close>

definition readTodos :: "disk \<Rightarrow> json" where
  "readTodos d =
     (case readFile (DATA_FILE d) of
        Inl err \<Rightarrow> JArr []
      | Inr data \<Rightarrow>
          (case JSON_parse data of
             Inl err \<Rightarrow> JArr []
           | Inr v \<Rightarrow> v))"

text \<open>\<^verbatim>\<open>writeTodos\<close>: a rejection of \<^verbatim>\<open>fs.writeFile\<close> is thrown again.\<close>

definition writeTodos :: "env \<Rightarrow> json \<Rightarrow> disk \<Rightarrow> (exn + unit) \<times> disk" where
  "writeTodos e todos d =
     (case writeFile e of
        Resolves \<Rightarrow>
          (Inr (), \<lparr>DATA_FILE = Readable (JSONText (JSON_stringify todos)),
                    writeFile_calls = Suc (writeFile_calls d)\<rparr>)
      | Rejects_untouched \<Rightarrow>
          (Inl IOError, \<lparr>DATA_FILE = DATA_FILE d, writeFile_calls = Suc (writeFile_calls d)\<rparr>)
      | Rejects_cut_short left \<Rightarrow>
          (Inl IOError, \<lparr>DATA_FILE = Readable (cut_short (JSON_stringify todos) left),
                         writeFile_calls = Suc (writeFile_calls d)\<rparr>)
      | Rejects_written \<Rightarrow>
          (Inl IOError, \<lparr>DATA_FILE = Readable (JSONText (JSON_stringify todos)),
                         writeFile_calls = Suc (writeFile_calls d)\<rparr>))"

text \<open>\<^verbatim>\<open>generateId\<close>: \<^verbatim>\<open>Date.now().toString() + Math.random().toString(36).substr(2, 9)\<close>\<close>

definition generateId :: "env \<Rightarrow> string" where
  "generateId e = toString (Date_now e) @ take 9 (drop 2 (Math_random_36 e))"

section \<open>Request handlers\<close>

text \<open>\<^verbatim>\<open>todos.findIndex((todo) => todo.id === id)\<close> on the elements of an array: the
  index of the first element whose \<^verbatim>\<open>id\<close> is the string \<open>ident\<close> of the path, \<open>None\<close>
  for \<^verbatim>\<open>-1\<close>. The callback throws at a \<^verbatim>\<open>null\<close> element met before a match.\<close>

fun findIndex_id :: "string \<Rightarrow> json list \<Rightarrow> exn + nat option" where
  "findIndex_id ident [] = Inr None"
| "findIndex_id ident (todo # rest) =
     (case get_prop todo ''id'' of
        Inl err \<Rightarrow> Inl err
      | Inr v \<Rightarrow>
          if v = Some (JStr ident) then Inr (Some 0)
          else (case findIndex_id ident rest of
                  Inl err \<Rightarrow> Inl err
                | Inr None \<Rightarrow> Inr None
                | Inr (Some i) \<Rightarrow> Inr (Some (Suc i))))"

text \<open>\<^verbatim>\<open>POST /api/todos\<close>, the body of the \<^verbatim>\<open>try\<close> block. \<^verbatim>\<open>todos.push\<close> exists on an
  array only.\<close>

definition newTodo :: "env \<Rightarrow> string \<Rightarrow> json" where
  "newTodo e trimmed =
     JObj [(''id'', JStr (generateId e)),
           (''text'', JStr trimmed),
           (''completed'', JBool False),
           (''createdAt'', JStr (toISOString e))]"

definition post_try :: "env \<Rightarrow> json \<Rightarrow> disk \<Rightarrow> (exn + response) \<times> disk" where
  "post_try e req_body d =
     (case get_prop req_body ''text'' of
        Inl err \<Rightarrow> (Inl err, d)
      | Inr None \<Rightarrow> (Inr (json_response 400 (error_body ''Todo text is required'')), d)
      | Inr (Some tx) \<Rightarrow>
          if \<not> truthy tx
          then (Inr (json_response 400 (error_body ''Todo text is required'')), d)
          else (case call_trim tx of
                  Inl err \<Rightarrow> (Inl err, d)
                | Inr trimmed \<Rightarrow>
                    if trimmed = []
                    then (Inr (json_response 400 (error_body ''Todo text is required'')), d)
                    else (case readTodos d of
                            JArr todos \<Rightarrow>
                              (case writeTodos e (JArr (todos @ [newTodo e trimmed])) d of
                                 (Inl err, d') \<Rightarrow> (Inl err, d')
                               | (Inr u, d') \<Rightarrow> (Inr (json_response 201 (newTodo e trimmed)), d'))
                          | other \<Rightarrow> (Inl TypeError, d))))"

text \<open>The create handler: the log line that stands before the \<^verbatim>\<open>try\<close>, then the \<^verbatim>\<open>try\<close>
  with its \<^verbatim>\<open>catch\<close>. What the log line throws is not caught: the handler sends nothing,
  which is \<open>Inl\<close> here.\<close>

definition post_todos :: "env \<Rightarrow> json \<Rightarrow> disk \<Rightarrow> (exn + response) \<times> disk" where
  "post_todos e req_body d =
     (case log_text e req_body of
        Inl err \<Rightarrow> (Inl err, d)
      | Inr u \<Rightarrow>
          (case post_try e req_body d of
             (Inr res, d') \<Rightarrow> (Inr res, d')
           | (Inl err, d') \<Rightarrow>
               (Inr (json_response 500 (error_body ''Failed to create todo'')), d')))"

text \<open>\<^verbatim>\<open>PUT /api/todos/:id\<close>. First the part after the text has been dealt with: the
  assignment of \<^verbatim>\<open>completed\<close> with its log line, that of \<^verbatim>\<open>updatedAt\<close>, the write and
  the answer.\<close>

definition put_commit :: "env \<Rightarrow> json option \<Rightarrow> json list \<Rightarrow> nat \<Rightarrow> disk \<Rightarrow> (exn + response) \<times> disk" where
  "put_commit e completed todos todoIndex d =
     (case (case completed of
              None \<Rightarrow> Inr (todos ! todoIndex)
            | Some c \<Rightarrow>
                (case log_change e (todos ! todoIndex) ''completed'' c of
                   Inl err \<Rightarrow> Inl err
                 | Inr u \<Rightarrow> set_prop (todos ! todoIndex) ''completed'' c)) of
        Inl err \<Rightarrow> (Inl err, d)
      | Inr todo1 \<Rightarrow>
          (case set_prop todo1 ''updatedAt'' (JStr (toISOString e)) of
             Inl err \<Rightarrow> (Inl err, d)
           | Inr todo2 \<Rightarrow>
               (case writeTodos e (JArr (todos[todoIndex := todo2])) d of
                  (Inl err, d') \<Rightarrow> (Inl err, d')
                | (Inr u, d') \<Rightarrow> (Inr (json_response 200 todo2), d'))))"

definition put_try :: "env \<Rightarrow> string \<Rightarrow> json \<Rightarrow> disk \<Rightarrow> (exn + response) \<times> disk" where
  "put_try e ident req_body d =
     (case get_prop req_body ''text'' of
        Inl err \<Rightarrow> (Inl err, d)
      | Inr tx \<Rightarrow>
     (case get_prop req_body ''completed'' of
        Inl err \<Rightarrow> (Inl err, d)
      | Inr completed \<Rightarrow>
     (case readTodos d of
        JArr todos \<Rightarrow>
          (case findIndex_id ident todos of
             Inl err \<Rightarrow> (Inl err, d)
           | Inr None \<Rightarrow> (Inr (json_response 404 (error_body ''Todo not found'')), d)
           | Inr (Some todoIndex) \<Rightarrow>
               (case tx of
                  None \<Rightarrow> put_commit e completed todos todoIndex d
                | Some t \<Rightarrow>
                    (case call_trim t of
                       Inl err \<Rightarrow> (Inl err, d)
                     | Inr trimmed \<Rightarrow>
                         if trimmed = []
                         then (Inr (json_response 400 (error_body ''Todo text cannot be empty'')), d)
                         else (case log_change e (todos ! todoIndex) ''text'' (JStr trimmed) of
                                 Inl err \<Rightarrow> (Inl err, d)
                               | Inr u \<Rightarrow>
                                   (case set_prop (todos ! todoIndex) ''text'' (JStr trimmed) of
                                      Inl err \<Rightarrow> (Inl err, d)
                                    | Inr todo' \<Rightarrow>
                                        put_commit e completed (todos[todoIndex := todo'])
                                          todoIndex d)))))
      | other \<Rightarrow> (Inl TypeError, d))))"

definition put_todos :: "env \<Rightarrow> string \<Rightarrow> json \<Rightarrow> disk \<Rightarrow> response \<times> disk" where
  "put_todos e ident req_body d =
     (case put_try e ident req_body d of
        (Inr res, d') \<Rightarrow> (res, d')
      | (Inl err, d') \<Rightarrow> (json_response 500 (error_body ''Failed to update todo''), d'))"

text \<open>\<^verbatim>\<open>DELETE /api/todos/:id\<close>; \<^verbatim>\<open>todos.splice(todoIndex, 1)[0]\<close> takes the element
  out and keeps the others in their order.\<close>

definition delete_try :: "env \<Rightarrow> string \<Rightarrow> disk \<Rightarrow> (exn + response) \<times> disk" where
  "delete_try e ident d =
     (case readTodos d of
        JArr todos \<Rightarrow>
          (case findIndex_id ident todos of
             Inl err \<Rightarrow> (Inl err, d)
           | Inr None \<Rightarrow> (Inr (json_response 404 (error_body ''Todo not found'')), d)
           | Inr (Some todoIndex) \<Rightarrow>
               (case writeTodos e (JArr (take todoIndex todos @ drop (Suc todoIndex) todos)) d of
                  (Inl err, d') \<Rightarrow> (Inl err, d')
                | (Inr u, d') \<Rightarrow>
                    (Inr (json_response 200
                            (JObj [(''message'', JStr ''Todo deleted successfully''),
                                   (''todo'', todos ! todoIndex)])), d')))
      | other \<Rightarrow> (Inl TypeError, d))"

definition delete_todos :: "env \<Rightarrow> string \<Rightarrow> disk \<Rightarrow> response \<times> disk" where
  "delete_todos e ident d =
     (case delete_try e ident d of
        (Inr res, d') \<Rightarrow> (res, d')
      | (Inl err, d') \<Rightarrow> (json_response 500 (error_body ''Failed to delete todo''), d'))"

section \<open>Notions used to state the properties\<close>

text \<open>An element of the stored array carries the identifier \<open>ident\<close>: the test that the
  callback of \<^verbatim>\<open>findIndex\<close> makes, where it does not throw.\<close>

definition has_id :: "string \<Rightarrow> json \<Rightarrow> bool" where
  "has_id ident todo = (get_prop todo ''id'' = Inr (Some (JStr ident)))"

text \<open>The \<^verbatim>\<open>completed\<close> field of a stored element is a boolean, and it is so for every
  element of the persisted collection.\<close>

fun completed_is_boolean :: "json \<Rightarrow> bool" where
  "completed_is_boolean (JObj kvs) =
     (case map_of kvs ''completed'' of Some (JBool b) \<Rightarrow> True | other \<Rightarrow> False)"
| "completed_is_boolean v = False"

definition completed_invariant :: "disk \<Rightarrow> bool" where
  "completed_invariant d =
     (case readTodos d of JArr todos \<Rightarrow> list_all completed_is_boolean todos | other \<Rightarrow> False)"

text \<open>A value all of whose numbers are doubles: a finite number in it is zero or lies
  within the range. The values that \<^verbatim>\<open>JSON.parse\<close> returns are such.\<close>

fun is_double :: "number \<Rightarrow> bool" where
  "is_double (Finite q) = (q = 0 \<or> (underflow_upto < \<bar>q\<bar> \<and> \<bar>q\<bar> < overflow_from))"
| "is_double n = True"

fun doubles :: "json \<Rightarrow> bool" where
  "doubles (JNum n) = is_double n"
| "doubles (JArr xs) = list_all doubles xs"
| "doubles (JObj kvs) = list_all (\<lambda>kv. doubles (snd kv)) kvs"
| "doubles v = True"

text \<open>A value all of whose numbers are finite doubles other than the negative zero. The
  items that the handlers make are such: their fields are strings and booleans.\<close>

fun finite_double :: "number \<Rightarrow> bool" where
  "finite_double (Finite q) = (q = 0 \<or> (underflow_upto < \<bar>q\<bar> \<and> \<bar>q\<bar> < overflow_from))"
| "finite_double n = False"

fun plain :: "json \<Rightarrow> bool" where
  "plain (JNum n) = finite_double n"
| "plain (JArr xs) = list_all plain xs"
| "plain (JObj kvs) = list_all (\<lambda>kv. plain (snd kv)) kvs"
| "plain v = True"

text \<open>\<^verbatim>\<open>writeTodos(await readTodos())\<close>: persisting what has just been read.\<close>

definition write_back :: "env \<Rightarrow> disk \<Rightarrow> (exn + unit) \<times> disk" where
  "write_back e d = writeTodos e (readTodos d) d"

text \<open>Sample data, after the fixtures of the repository's test suite, which sets
  \<^verbatim>\<open>NODE_ENV\<close> to \<^verbatim>\<open>test\<close>; and the same environment with the logging on.\<close>

definition testTodo :: json where
  "testTodo =
     JObj [(''id'', JStr ''test-id-1''),
           (''text'', JStr ''Original todo''),
           (''completed'', JBool False),
           (''createdAt'', JStr ''2023-01-01T00:00:00.000Z'')]"

definition testTodo2 :: json where
  "testTodo2 =
     JObj [(''id'', JStr ''test-id-2''),
           (''text'', JStr ''Second todo''),
           (''completed'', JBool True),
           (''createdAt'', JStr ''2023-01-02T00:00:00.000Z'')]"

definition testDisk :: disk where
  "testDisk =
     \<lparr>DATA_FILE = Readable (JSONText (JSON_stringify (JArr [testTodo, testTodo2]))),
      writeFile_calls = 0\<rparr>"

definition testEnv :: env where
  "testEnv =
     \<lparr>NODE_ENV = Some ''test'',
      Date_now = 1700000000000,
      toISOString = ''2023-11-14T22:13:20.000Z'',
      Math_random_36 = ''0.i'',
      writeFile = Resolves\<rparr>"

definition productionEnv :: env where
  "productionEnv =
     \<lparr>NODE_ENV = Some ''production'',
      Date_now = 1700000000000,
      toISOString = ''2023-11-14T22:13:20.000Z'',
      Math_random_36 = ''0.i'',
      writeFile = Resolves\<rparr>"

text \<open>A collection that already holds the identifier that \<^verbatim>\<open>generateId\<close> makes from the
  clock and the random number of \<open>testEnv\<close>.\<close>

definition clashTodo :: json where
  "clashTodo =
     JObj [(''id'', JStr ''1700000000000i''),
           (''text'', JStr ''Earlier todo''),
           (''completed'', JBool False),
           (''createdAt'', JStr ''2023-11-14T22:13:20.000Z'')]"

definition clashDisk :: disk where
  "clashDisk =
     \<lparr>DATA_FILE = Readable (JSONText (JSON_stringify (JArr [clashTodo]))), writeFile_calls = 0\<rparr>"

text \<open>Files that hold \<^verbatim>\<open>[1e309]\<close> and \<^verbatim>\<open>[-0]\<close>.\<close>

definition overflowDisk :: disk where
  "overflowDisk =
     \<lparr>DATA_FILE = Readable (JSONText (TArr [TNum (Lit False (10 ^ 309))])), writeFile_calls = 0\<rparr>"

definition negativeZeroDisk :: disk where
  "negativeZeroDisk =
     \<lparr>DATA_FILE = Readable (JSONText (TArr [TNum (Lit True 0)])), writeFile_calls = 0\<rparr>"

section \<open>Auxiliary facts\<close>

declare toString_nat.simps [simp del]

lemma toString_nat_nonempty: "toString_nat n \<noteq> []"
  by (subst toString_nat.simps) simp

lemma generateId_nonempty: "generateId e \<noteq> []"
  by (simp add: generateId_def toString_def toString_nat_nonempty)

lemma map_of_assign: "map_of (assign k v kvs) = (map_of kvs)(k \<mapsto> v)"
  by (induction kvs) (auto simp: fun_eq_iff)

lemma get_prop_throws: "get_prop v k = Inl err \<longleftrightarrow> v = JNull \<and> err = TypeError"
  by (cases v) auto

lemma get_prop_defined: "v \<noteq> JNull \<Longrightarrow> \<exists>r. get_prop v k = Inr r"
  by (cases v) auto

lemma get_prop_some_object: "get_prop v k = Inr (Some x) \<Longrightarrow> v \<noteq> JNull"
  by (cases v) auto

lemma has_id_object:
  "has_id ident todo \<longleftrightarrow> (\<exists>kvs. todo = JObj kvs \<and> map_of kvs ''id'' = Some (JStr ident))"
  by (cases todo) (auto simp: has_id_def)

lemma trim_nonempty: "trim s \<noteq> [] \<Longrightarrow> s \<noteq> []"
  by (auto simp: trim_def)

lemma findIndex_id_found:
  "findIndex_id ident todos = Inr (Some i) \<Longrightarrow>
     i < length todos \<and> has_id ident (todos ! i) \<and> (\<forall>j<i. \<not> has_id ident (todos ! j))"
proof (induction todos arbitrary: i)
  case Nil
  then show ?case by simp
next
  case (Cons todo rest)
  show ?case
  proof (cases "has_id ident todo")
    case True
    with Cons.prems have "i = 0"
      by (auto simp: has_id_def split: sum.splits)
    with True show ?thesis by simp
  next
    case False
    with Cons.prems obtain i' where i': "findIndex_id ident rest = Inr (Some i')" "i = Suc i'"
      by (auto simp: has_id_def split: sum.splits option.splits if_splits)
    from Cons.IH [OF i'(1)] False i'(2) show ?thesis
      by (auto simp: less_Suc_eq_0_disj)
  qed
qed

lemma findIndex_id_absent:
  "JNull \<notin> set todos \<Longrightarrow> \<forall>todo\<in>set todos. \<not> has_id ident todo \<Longrightarrow>
     findIndex_id ident todos = Inr None"
proof (induction todos)
  case Nil
  then show ?case by simp
next
  case (Cons todo rest)
  then have "todo \<noteq> JNull" and "\<not> has_id ident todo" by auto
  then obtain v where "get_prop todo ''id'' = Inr v" "v \<noteq> Some (JStr ident)"
    by (cases "get_prop todo ''id''") (auto simp: get_prop_throws has_id_def)
  with Cons show ?case by simp
qed

lemma findIndex_id_not_absent:
  "\<exists>todo\<in>set todos. has_id ident todo \<Longrightarrow> findIndex_id ident todos \<noteq> Inr None"
  by (induction todos) (auto simp: has_id_def split: sum.splits option.splits)

lemma findIndex_id_present:
  "JNull \<notin> set todos \<Longrightarrow> \<exists>todo\<in>set todos. has_id ident todo \<Longrightarrow>
     \<exists>i. findIndex_id ident todos = Inr (Some i)"
proof (induction todos)
  case Nil
  then show ?case by simp
next
  case (Cons todo rest)
  then have "todo \<noteq> JNull" by auto
  then obtain v where v: "get_prop todo ''id'' = Inr v"
    by (cases "get_prop todo ''id''") (auto simp: get_prop_throws)
  show ?case
  proof (cases "v = Some (JStr ident)")
    case True
    with v show ?thesis by simp
  next
    case False
    with v have "\<not> has_id ident todo" by (simp add: has_id_def)
    with Cons.prems have "JNull \<notin> set rest" "\<exists>todo\<in>set rest. has_id ident todo" by auto
    from Cons.IH [OF this] obtain i where "findIndex_id ident rest = Inr (Some i)" ..
    with v False show ?thesis by simp
  qed
qed

section \<open>Writing a value and reading it again\<close>

text \<open>What \<^verbatim>\<open>JSON.parse\<close> makes of the text that \<^verbatim>\<open>JSON.stringify\<close> wrote: the value
  itself when its numbers are finite doubles other than the negative zero; and in every
  case a value that is written as the first one was.\<close>

lemma range_bounds: "0 < underflow_upto" "underflow_upto < overflow_from" "0 < overflow_from"
  by (simp_all add: underflow_upto_def overflow_from_def)

lemma number_round_trip: "finite_double n \<Longrightarrow> value_of (literal_of n) = JNum n"
  using range_bounds by (cases n) (auto simp: abs_if not_le)

lemma number_of_is_double: "is_double (number_of l)"
  by (cases l) (auto simp: not_le)

lemma literal_round_trip: "is_double n \<Longrightarrow> JSON_stringify (value_of (literal_of n)) = literal_of n"
  using range_bounds by (cases n) (auto simp: abs_if not_le)

lemma value_of_stringify: "plain v \<Longrightarrow> value_of (JSON_stringify v) = v"
proof (induction v)
  case (JNum n)
  then show ?case by (simp add: number_round_trip)
next
  case (JArr xs)
  then show ?case by (simp add: list_all_iff map_idI)
next
  case (JObj kvs)
  have "map_prod id value_of (map_prod id JSON_stringify kv) = kv" if "kv \<in> set kvs" for kv
  proof -
    from JObj.prems that have "plain (snd kv)" by (simp add: list_all_iff)
    with JObj.IH [of kv "snd kv"] that show ?thesis by (cases kv) simp
  qed
  then show ?case by (simp add: map_idI)
qed simp_all

lemma doubles_value_of: "doubles (value_of t)"
proof (induction t)
  case (TNum l)
  then show ?case by (simp add: number_of_is_double)
next
  case (TArr ts)
  then show ?case by (simp add: list_all_iff)
next
  case (TObj ms)
  then show ?case by (auto simp: list_all_iff)
qed simp_all

lemma stringify_value_of_stringify:
  "doubles v \<Longrightarrow> JSON_stringify (value_of (JSON_stringify v)) = JSON_stringify v"
proof (induction v)
  case (JNum n)
  then show ?case by (simp add: literal_round_trip)
next
  case (JArr xs)
  then show ?case by (simp add: list_all_iff)
next
  case (JObj kvs)
  have "map_prod id JSON_stringify (map_prod id value_of (map_prod id JSON_stringify kv))
          = map_prod id JSON_stringify kv" if "kv \<in> set kvs" for kv
  proof -
    from JObj.prems that have "doubles (snd kv)" by (simp add: list_all_iff)
    with JObj.IH [of kv "snd kv"] that show ?thesis by (cases kv) simp
  qed
  then show ?case by simp
qed simp_all

lemma readTodos_written:
  "readTodos \<lparr>DATA_FILE = Readable (JSONText t), writeFile_calls = n\<rparr> = value_of t"
  by (simp add: readTodos_def)

lemma doubles_readTodos: "doubles (readTodos d)"
proof (cases "DATA_FILE d")
  case (Readable data)
  then show ?thesis
    by (cases data) (simp_all add: readTodos_def doubles_value_of)
qed (simp_all add: readTodos_def)

lemma plain_fixtures: "plain testTodo" "plain testTodo2" "plain clashTodo"
  by (simp_all add: testTodo_def testTodo2_def clashTodo_def)

lemma readTodos_testDisk: "readTodos testDisk = JArr [testTodo, testTodo2]"
  by (simp add: testDisk_def readTodos_written value_of_stringify plain_fixtures
      del: JSON_stringify.simps value_of.simps)

lemma readTodos_clashDisk: "readTodos clashDisk = JArr [clashTodo]"
  by (simp add: clashDisk_def readTodos_written value_of_stringify plain_fixtures
      del: JSON_stringify.simps value_of.simps)

section \<open>Store accessor\<close>

text \<open>
  C7. \<^verbatim>\<open>readTodos\<close> returns the stored sequence of items, and the empty sequence when
  \<^verbatim>\<open>data.json\<close> is absent, cannot be read, or does not hold a JSON text: the exceptions
  of \<^verbatim>\<open>fs.readFile\<close> and \<^verbatim>\<open>JSON.parse\<close> are caught.
\<close>

theorem readTodos_fail_open:
  "readTodos \<lparr>DATA_FILE = Readable (JSONText (TArr items)), writeFile_calls = n\<rparr>
     = JArr (map value_of items)
   \<and> readTodos \<lparr>DATA_FILE = Absent, writeFile_calls = n\<rparr> = JArr []
   \<and> readTodos \<lparr>DATA_FILE = Unreadable, writeFile_calls = n\<rparr> = JArr []
   \<and> readTodos \<lparr>DATA_FILE = Readable NotJSON, writeFile_calls = n\<rparr> = JArr []"
  by (simp add: readTodos_def)

text \<open>
  C9, as stated, fails: a number that is read as an infinity is written as \<^verbatim>\<open>null\<close>, and
  the negative zero as \<^verbatim>\<open>0\<close>. From a file that holds \<^verbatim>\<open>[1e309]\<close>, \<^verbatim>\<open>readTodos\<close> returns
  an array with \<^verbatim>\<open>Infinity\<close> before the write and with \<^verbatim>\<open>null\<close> after it; from a file that
  holds \<^verbatim>\<open>[-0]\<close>, an array with the negative zero before and with zero after.
\<close>

theorem write_back_numbers_counterexample:
  "readTodos overflowDisk = JArr [JNum PosInfinity]
   \<and> fst (write_back testEnv overflowDisk) = Inr ()
   \<and> readTodos (snd (write_back testEnv overflowDisk)) = JArr [JNull]
   \<and> readTodos negativeZeroDisk = JArr [JNum NegZero]
   \<and> fst (write_back testEnv negativeZeroDisk) = Inr ()
   \<and> readTodos (snd (write_back testEnv negativeZeroDisk)) = JArr [JNum (Finite 0)]"
proof -
  have inf: "readTodos overflowDisk = JArr [JNum PosInfinity]"
    by (simp add: readTodos_def overflowDisk_def overflow_from_def)
  have zero: "readTodos negativeZeroDisk = JArr [JNum NegZero]"
    by (simp add: readTodos_def negativeZeroDisk_def overflow_from_def underflow_upto_def)
  have resolves: "writeFile testEnv = Resolves"
    by (simp add: testEnv_def)
  have "fst (write_back testEnv overflowDisk) = Inr ()"
    and "readTodos (snd (write_back testEnv overflowDisk)) = JArr [JNull]"
    by (simp_all add: write_back_def writeTodos_def resolves inf readTodos_written)
  moreover have "fst (write_back testEnv negativeZeroDisk) = Inr ()"
    and "readTodos (snd (write_back testEnv negativeZeroDisk)) = JArr [JNum (Finite 0)]"
    using range_bounds
    by (simp_all add: write_back_def writeTodos_def resolves zero readTodos_written)
  ultimately show ?thesis
    using inf zero by simp
qed

text \<open>
  C9, amended. From every state of the file, writing back what \<^verbatim>\<open>readTodos\<close> returned,
  the write resolving, is idempotent: doing it a second time leaves the file, and what
  \<^verbatim>\<open>readTodos\<close> returns, as the first time left them. And when every number in what
  \<^verbatim>\<open>readTodos\<close> returns is a finite double other than the negative zero, as in every
  collection of items with string and boolean fields, \<^verbatim>\<open>readTodos\<close> returns after the
  write what it returned before.
\<close>

theorem write_back_idempotent:
  assumes "writeFile e = Resolves" and "writeFile e' = Resolves"
  shows "fst (write_back e d) = Inr ()
         \<and> DATA_FILE (snd (write_back e' (snd (write_back e d)))) = DATA_FILE (snd (write_back e d))
         \<and> readTodos (snd (write_back e' (snd (write_back e d)))) = readTodos (snd (write_back e d))
         \<and> (plain (readTodos d) \<longrightarrow> readTodos (snd (write_back e d)) = readTodos d)"
proof -
  have first: "write_back e d
                 = (Inr (), \<lparr>DATA_FILE = Readable (JSONText (JSON_stringify (readTodos d))),
                             writeFile_calls = Suc (writeFile_calls d)\<rparr>)"
    by (simp add: write_back_def writeTodos_def assms)
  have again: "JSON_stringify (value_of (JSON_stringify (readTodos d))) = JSON_stringify (readTodos d)"
    by (rule stringify_value_of_stringify) (rule doubles_readTodos)
  have second: "DATA_FILE (snd (write_back e' (snd (write_back e d))))
                  = Readable (JSONText (JSON_stringify (readTodos d)))"
    by (simp add: first write_back_def writeTodos_def assms readTodos_written again)
  have "readTodos (snd (write_back e' (snd (write_back e d)))) = value_of (JSON_stringify (readTodos d))"
    by (simp add: first write_back_def writeTodos_def assms readTodos_written again)
  moreover have "readTodos (snd (write_back e d)) = value_of (JSON_stringify (readTodos d))"
    by (simp add: first readTodos_written)
  moreover have "readTodos (snd (write_back e d)) = readTodos d" if "plain (readTodos d)"
    using that by (simp add: first readTodos_written value_of_stringify)
  ultimately show ?thesis
    using first second by simp
qed

theorem write_back_idempotent_witness:
  "writeFile testEnv = Resolves
   \<and> plain (readTodos testDisk)
   \<and> readTodos (snd (write_back testEnv testDisk)) = JArr [testTodo, testTodo2]
   \<and> readTodos (snd (write_back testEnv (snd (write_back testEnv overflowDisk))))
       = readTodos (snd (write_back testEnv overflowDisk))"
proof -
  have resolves: "writeFile testEnv = Resolves"
    by (simp add: testEnv_def)
  have stored: "plain (readTodos testDisk)"
    by (simp add: readTodos_testDisk plain_fixtures)
  from write_back_idempotent [OF resolves resolves, of testDisk]
    write_back_idempotent [OF resolves resolves, of overflowDisk] resolves stored
  show ?thesis
    by (simp add: readTodos_testDisk)
qed

section \<open>Requests that are refused\<close>

lemma log_text_string:
  "get_prop req_body ''text'' = Inr None \<or> (\<exists>s. get_prop req_body ''text'' = Inr (Some (JStr s)))
     \<Longrightarrow> log_text e req_body = Inr ()"
  by (auto simp: log_text_def)

text \<open>
  C8. A create request whose \<^verbatim>\<open>text\<close> is absent, the empty string or a string of white
  space only is answered with status 400 and the one message \<^verbatim>\<open>Todo text is required\<close>,
  and the disk is left as it was: the collection is unchanged and nothing was written.
\<close>

theorem create_blank_text_rejected:
  assumes "get_prop req_body ''text'' = Inr None
           \<or> (\<exists>s. get_prop req_body ''text'' = Inr (Some (JStr s)) \<and> trim s = [])"
  shows "post_todos e req_body d
           = (Inr (json_response 400 (error_body ''Todo text is required'')), d)"
proof -
  from assms have "log_text e req_body = Inr ()"
    by (intro log_text_string) blast
  with assms show ?thesis
    by (auto simp: post_todos_def post_try_def)
qed

theorem create_blank_text_rejected_witness:
  "post_todos productionEnv (JObj []) testDisk
     = (Inr (json_response 400 (error_body ''Todo text is required'')), testDisk)
   \<and> post_todos productionEnv (JObj [(''text'', JStr [])]) testDisk
     = (Inr (json_response 400 (error_body ''Todo text is required'')), testDisk)
   \<and> post_todos testEnv (JObj [(''text'', JStr ''   '')]) testDisk
     = (Inr (json_response 400 (error_body ''Todo text is required'')), testDisk)"
proof -
  have absent: "get_prop (JObj []) ''text'' = Inr None"
    by simp
  have empty: "get_prop (JObj [(''text'', JStr [])]) ''text'' = Inr (Some (JStr []))
               \<and> trim [] = []"
    by (simp add: trim_def)
  have blank: "get_prop (JObj [(''text'', JStr ''   '')]) ''text'' = Inr (Some (JStr ''   ''))
               \<and> trim ''   '' = []"
    by (simp add: trim_def is_space_def)
  show ?thesis
    using create_blank_text_rejected [of "JObj []" productionEnv testDisk]
      create_blank_text_rejected [of "JObj [(''text'', JStr [])]" productionEnv testDisk]
      create_blank_text_rejected [of "JObj [(''text'', JStr ''   '')]" testEnv testDisk]
      absent empty blank
    by blast
qed

text \<open>
  C1. When the stored collection has an item with the identifier of the path, an update
  whose \<^verbatim>\<open>text\<close> is a string that trims to the empty string is answered with status 400
  and \<^verbatim>\<open>Todo text cannot be empty\<close>, whatever else the request carries (a
  \<^verbatim>\<open>completed\<close> value too), and the disk is left as it was: no field of any item has
  changed, \<^verbatim>\<open>updatedAt\<close> and \<^verbatim>\<open>completed\<close> included, and nothing was written.
\<close>

theorem update_blank_text_rejected:
  assumes stored: "readTodos d = JArr todos" "JNull \<notin> set todos"
    and known: "\<exists>todo\<in>set todos. has_id ident todo"
    and tx: "get_prop req_body ''text'' = Inr (Some (JStr s))" "trim s = []"
  shows "put_todos e ident req_body d
           = (json_response 400 (error_body ''Todo text cannot be empty''), d)"
proof -
  from findIndex_id_present [OF stored(2) known]
  obtain i where i: "findIndex_id ident todos = Inr (Some i)" ..
  from tx(1) have "req_body \<noteq> JNull" by (rule get_prop_some_object)
  then obtain completed where c: "get_prop req_body ''completed'' = Inr completed"
    using get_prop_defined by blast
  show ?thesis
    by (simp add: put_todos_def put_try_def tx c stored(1) i)
qed

theorem update_blank_text_rejected_witness:
  "put_todos productionEnv ''test-id-2''
     (JObj [(''text'', JStr ''   ''), (''completed'', JBool False)]) testDisk
     = (json_response 400 (error_body ''Todo text cannot be empty''), testDisk)"
proof -
  have objects: "JNull \<notin> set [testTodo, testTodo2]"
    by (simp add: testTodo_def testTodo2_def)
  have known: "\<exists>todo\<in>set [testTodo, testTodo2]. has_id ''test-id-2'' todo"
    by (simp add: has_id_def testTodo_def testTodo2_def)
  have tx: "get_prop (JObj [(''text'', JStr ''   ''), (''completed'', JBool False)]) ''text''
                = Inr (Some (JStr ''   ''))"
    by simp
  have blank: "trim ''   '' = []"
    by (simp add: trim_def is_space_def)
  show ?thesis
    by (rule update_blank_text_rejected [OF readTodos_testDisk objects known tx blank])
qed

text \<open>
  C5. When no item of the stored collection has the identifier of the path, update and
  delete are both answered with status 404 and \<^verbatim>\<open>Todo not found\<close>, and the disk is
  left as it was: the file is the same and \<^verbatim>\<open>fs.writeFile\<close> has not been called.
\<close>

theorem unknown_id_not_found:
  assumes stored: "readTodos d = JArr todos" "JNull \<notin> set todos"
    and unknown: "\<forall>todo\<in>set todos. \<not> has_id ident todo"
    and req: "req_body \<noteq> JNull"
  shows "put_todos e ident req_body d = (json_response 404 (error_body ''Todo not found''), d)
         \<and> delete_todos e ident d = (json_response 404 (error_body ''Todo not found''), d)"
proof -
  have i: "findIndex_id ident todos = Inr None"
    by (rule findIndex_id_absent [OF stored(2) unknown])
  obtain t completed where
    "get_prop req_body ''text'' = Inr t" "get_prop req_body ''completed'' = Inr completed"
    using get_prop_defined [OF req] by blast
  then have "put_todos e ident req_body d = (json_response 404 (error_body ''Todo not found''), d)"
    by (simp add: put_todos_def put_try_def stored(1) i)
  moreover have "delete_todos e ident d = (json_response 404 (error_body ''Todo not found''), d)"
    by (simp add: delete_todos_def delete_try_def stored(1) i)
  ultimately show ?thesis ..
qed

theorem unknown_id_not_found_witness:
  "put_todos productionEnv ''nonexistent-id'' (JObj [(''text'', JStr ''Updated text'')]) testDisk
     = (json_response 404 (error_body ''Todo not found''), testDisk)
   \<and> delete_todos productionEnv ''nonexistent-id'' testDisk
     = (json_response 404 (error_body ''Todo not found''), testDisk)"
proof -
  have objects: "JNull \<notin> set [testTodo, testTodo2]"
    by (simp add: testTodo_def testTodo2_def)
  have unknown: "\<forall>todo\<in>set [testTodo, testTodo2]. \<not> has_id ''nonexistent-id'' todo"
    by (simp add: has_id_def testTodo_def testTodo2_def)
  have req: "JObj [(''text'', JStr ''Updated text'')] \<noteq> JNull"
    by simp
  show ?thesis
    by (rule unknown_id_not_found [OF readTodos_testDisk objects unknown req])
qed

text \<open>
  C10, as stated, fails. For an update, the identifier is looked up before the text is
  trimmed: an update of an unknown identifier with the text \<^verbatim>\<open>5\<close> is answered with 404,
  not with 500. For a create with the logging on, the text \<^verbatim>\<open>{"toString": 1}\<close> makes the
  log line before the \<^verbatim>\<open>try\<close> throw: the \<^verbatim>\<open>catch\<close> is not reached and the handler sends
  no 500.
\<close>

theorem non_string_text_counterexample:
  "truthy (JNum (Finite 5))
   \<and> get_prop (JObj [(''text'', JNum (Finite 5))]) ''text'' = Inr (Some (JNum (Finite 5)))
   \<and> put_todos testEnv ''nonexistent-id'' (JObj [(''text'', JNum (Finite 5))]) testDisk
       = (json_response 404 (error_body ''Todo not found''), testDisk)
   \<and> truthy (JObj [(''toString'', JNum (Finite 1))])
   \<and> get_prop (JObj [(''text'', JObj [(''toString'', JNum (Finite 1))])]) ''text''
       = Inr (Some (JObj [(''toString'', JNum (Finite 1))]))
   \<and> post_todos productionEnv (JObj [(''text'', JObj [(''toString'', JNum (Finite 1))])]) testDisk
       = (Inl TypeError, testDisk)"
proof -
  have "put_todos testEnv ''nonexistent-id'' (JObj [(''text'', JNum (Finite 5))]) testDisk
       = (json_response 404 (error_body ''Todo not found''), testDisk)"
    by (simp add: put_todos_def put_try_def readTodos_testDisk testTodo_def testTodo2_def)
  moreover
  have "post_todos productionEnv (JObj [(''text'', JObj [(''toString'', JNum (Finite 1))])]) testDisk
       = (Inl TypeError, testDisk)"
    by (simp add: post_todos_def log_text_def logging_def productionEnv_def)
  ultimately show ?thesis by simp
qed

text \<open>
  C10, amended. A \<^verbatim>\<open>text\<close> that is present, truthy and not a string makes
  \<^verbatim>\<open>text.trim()\<close> throw inside the \<^verbatim>\<open>try\<close>. A create request is then answered with the
  generic status 500 when nothing is logged (\<^verbatim>\<open>NODE_ENV\<close> is \<^verbatim>\<open>test\<close>) or the text has a
  string for the log line, as every number, boolean and array of such has. An update
  request whose identifier some item of the stored collection has is answered with the
  generic status 500. Neither is answered with 400, and the disk is left as it was.
\<close>

theorem non_string_text_fails:
  assumes tx: "get_prop req_body ''text'' = Inr (Some t)" "truthy t" "\<forall>s. t \<noteq> JStr s"
  shows "(NODE_ENV e = Some ''test'' \<or> \<not> ToString_throws t \<longrightarrow>
            post_todos e req_body d
              = (Inr (json_response 500 (error_body ''Failed to create todo'')), d))
         \<and> (\<forall>todos. readTodos d = JArr todos \<longrightarrow> (\<exists>todo\<in>set todos. has_id ident todo) \<longrightarrow>
               put_todos e ident req_body d
                 = (json_response 500 (error_body ''Failed to update todo''), d))"
proof -
  from tx(3) have trim: "call_trim t = Inl TypeError"
    by (cases t) auto
  have create: "post_todos e req_body d
                  = (Inr (json_response 500 (error_body ''Failed to create todo'')), d)"
    if "NODE_ENV e = Some ''test'' \<or> \<not> ToString_throws t"
  proof -
    from that have "log_text e req_body = Inr ()"
      by (auto simp: log_text_def logging_def tx)
    then show ?thesis
      by (simp add: post_todos_def post_try_def tx trim)
  qed
  from tx(1) have "req_body \<noteq> JNull" by (rule get_prop_some_object)
  then obtain completed where c: "get_prop req_body ''completed'' = Inr completed"
    using get_prop_defined by blast
  have update: "put_todos e ident req_body d
                  = (json_response 500 (error_body ''Failed to update todo''), d)"
    if stored: "readTodos d = JArr todos" and known: "\<exists>todo\<in>set todos. has_id ident todo"
    for todos
  proof (cases "findIndex_id ident todos")
    case (Inl err)
    then show ?thesis
      by (simp add: put_todos_def put_try_def tx c stored)
  next
    case (Inr r)
    with findIndex_id_not_absent [OF known] obtain i where "r = Some i"
      by (cases r) auto
    with Inr show ?thesis
      by (simp add: put_todos_def put_try_def tx c stored trim)
  qed
  from create update show ?thesis by blast
qed

theorem non_string_text_fails_witness:
  "post_todos testEnv (JObj [(''text'', JObj [(''toString'', JNum (Finite 1))])]) testDisk
     = (Inr (json_response 500 (error_body ''Failed to create todo'')), testDisk)
   \<and> post_todos productionEnv (JObj [(''text'', JNum (Finite 5))]) testDisk
     = (Inr (json_response 500 (error_body ''Failed to create todo'')), testDisk)
   \<and> put_todos productionEnv ''test-id-1'' (JObj [(''text'', JNum (Finite 5))]) testDisk
     = (json_response 500 (error_body ''Failed to update todo''), testDisk)"
proof -
  have number: "get_prop (JObj [(''text'', JNum (Finite 5))]) ''text'' = Inr (Some (JNum (Finite 5)))"
    "truthy (JNum (Finite 5))" "\<forall>s. JNum (Finite 5) \<noteq> JStr s"
    by simp_all
  have object: "get_prop (JObj [(''text'', JObj [(''toString'', JNum (Finite 1))])]) ''text''
                  = Inr (Some (JObj [(''toString'', JNum (Finite 1))]))"
    "truthy (JObj [(''toString'', JNum (Finite 1))])"
    "\<forall>s. JObj [(''toString'', JNum (Finite 1))] \<noteq> JStr s"
    by simp_all
  have test: "NODE_ENV testEnv = Some ''test''"
    by (simp add: testEnv_def)
  have printable: "\<not> ToString_throws (JNum (Finite 5))"
    by simp
  have known: "\<exists>todo\<in>set [testTodo, testTodo2]. has_id ''test-id-1'' todo"
    by (simp add: has_id_def testTodo_def testTodo2_def)
  from non_string_text_fails [OF object, of testEnv testDisk "''test-id-1''"]
    non_string_text_fails [OF number, of productionEnv testDisk "''test-id-1''"]
    test printable readTodos_testDisk known
  show ?thesis by blast
qed

section \<open>Create and delete\<close>

lemma generateId_testEnv: "generateId testEnv = ''1700000000000i''"
  by (simp add: generateId_def testEnv_def toString_def toString_nat.simps digit_def)

lemma plain_newTodo: "plain (newTodo e trimmed)"
  by (simp add: newTodo_def)

text \<open>What create does with a text that is not blank: for every stored array, when the
  write resolves, it answers 201 with the new item and leaves in the file the former
  items in their order followed by the new item, and by nothing else. The new item has the
  trimmed text, \<^verbatim>\<open>completed\<close> false, \<^verbatim>\<open>createdAt\<close> the time of the clock, no
  \<^verbatim>\<open>updatedAt\<close>, and as identifier a string that is not empty: the decimal digits of the
  clock followed by at most nine characters of the random number in base 36.\<close>

lemma create_appends:
  assumes tx: "get_prop req_body ''text'' = Inr (Some (JStr s))" "trim s \<noteq> []"
    and stored: "readTodos d = JArr todos"
    and resolves: "writeFile e = Resolves"
  shows "post_todos e req_body d
           = (Inr (json_response 201 (newTodo e (trim s))),
              \<lparr>DATA_FILE = Readable (JSONText (JSON_stringify (JArr (todos @ [newTodo e (trim s)])))),
               writeFile_calls = Suc (writeFile_calls d)\<rparr>)
         \<and> (list_all plain todos \<longrightarrow>
               readTodos (snd (post_todos e req_body d)) = JArr (todos @ [newTodo e (trim s)]))
         \<and> get_prop (newTodo e (trim s)) ''text'' = Inr (Some (JStr (trim s)))
         \<and> get_prop (newTodo e (trim s)) ''completed'' = Inr (Some (JBool False))
         \<and> get_prop (newTodo e (trim s)) ''createdAt'' = Inr (Some (JStr (toISOString e)))
         \<and> get_prop (newTodo e (trim s)) ''updatedAt'' = Inr None
         \<and> get_prop (newTodo e (trim s)) ''id'' = Inr (Some (JStr (generateId e)))
         \<and> generateId e \<noteq> []
         \<and> generateId e = toString (Date_now e) @ take 9 (drop 2 (Math_random_36 e))"
proof -
  from tx(2) have "s \<noteq> []" by (rule trim_nonempty)
  moreover have "log_text e req_body = Inr ()"
    using tx(1) by (intro log_text_string) blast
  ultimately have run: "post_todos e req_body d
           = (Inr (json_response 201 (newTodo e (trim s))),
              \<lparr>DATA_FILE = Readable (JSONText (JSON_stringify (JArr (todos @ [newTodo e (trim s)])))),
               writeFile_calls = Suc (writeFile_calls d)\<rparr>)"
    by (simp add: post_todos_def post_try_def tx stored writeTodos_def resolves
        del: JSON_stringify.simps)
  have "readTodos (snd (post_todos e req_body d)) = JArr (todos @ [newTodo e (trim s)])"
    if "list_all plain todos"
  proof -
    from that have "plain (JArr (todos @ [newTodo e (trim s)]))"
      by (simp add: plain_newTodo)
    then show ?thesis
      unfolding run snd_conv readTodos_written by (rule value_of_stringify)
  qed
  moreover have "get_prop (newTodo e (trim s)) ''text'' = Inr (Some (JStr (trim s)))"
    and "get_prop (newTodo e (trim s)) ''completed'' = Inr (Some (JBool False))"
    and "get_prop (newTodo e (trim s)) ''createdAt'' = Inr (Some (JStr (toISOString e)))"
    and "get_prop (newTodo e (trim s)) ''updatedAt'' = Inr None"
    and "get_prop (newTodo e (trim s)) ''id'' = Inr (Some (JStr (generateId e)))"
    by (simp_all add: newTodo_def)
  moreover have "generateId e = toString (Date_now e) @ take 9 (drop 2 (Math_random_36 e))"
    by (simp add: generateId_def)
  ultimately show ?thesis
    using run generateId_nonempty by blast
qed

text \<open>
  C3. The code does not give the new item an identifier distinct from those of the items
  in the collection, which the claim asks and the comment above \<^verbatim>\<open>generateId\<close> promises
  (\<^verbatim>\<open>Generate unique ID\<close>): the identifier is made from the clock and the random number
  alone and is compared with nothing. Here the collection holds an item created at the
  same millisecond with the same random digits; the create is answered with 201, the item
  that is created gets the identifier of that item, and both are persisted.
\<close>

theorem create_id_clash:
  "readTodos clashDisk = JArr [clashTodo]
   \<and> trim ''Buy milk'' = ''Buy milk''
   \<and> post_todos testEnv (JObj [(''text'', JStr ''Buy milk'')]) clashDisk
       = (Inr (json_response 201 (newTodo testEnv ''Buy milk'')),
          \<lparr>DATA_FILE = Readable (JSONText
             (JSON_stringify (JArr [clashTodo, newTodo testEnv ''Buy milk'']))),
           writeFile_calls = 1\<rparr>)
   \<and> readTodos (snd (post_todos testEnv (JObj [(''text'', JStr ''Buy milk'')]) clashDisk))
       = JArr [clashTodo, newTodo testEnv ''Buy milk'']
   \<and> get_prop (newTodo testEnv ''Buy milk'') ''id'' = Inr (Some (JStr ''1700000000000i''))
   \<and> get_prop clashTodo ''id'' = Inr (Some (JStr ''1700000000000i''))"
proof -
  have tx: "get_prop (JObj [(''text'', JStr ''Buy milk'')]) ''text'' = Inr (Some (JStr ''Buy milk''))"
    by simp
  have t: "trim ''Buy milk'' = ''Buy milk''"
    by (simp add: trim_def is_space_def)
  then have valid: "trim ''Buy milk'' \<noteq> []"
    by simp
  have resolves: "writeFile testEnv = Resolves"
    by (simp add: testEnv_def)
  have calls: "writeFile_calls clashDisk = 0"
    by (simp add: clashDisk_def)
  have items: "list_all plain [clashTodo]"
    by (simp add: plain_fixtures)
  have n: "get_prop (newTodo testEnv ''Buy milk'') ''id'' = Inr (Some (JStr ''1700000000000i''))"
    by (simp add: newTodo_def generateId_testEnv)
  have c: "get_prop clashTodo ''id'' = Inr (Some (JStr ''1700000000000i''))"
    by (simp add: clashTodo_def)
  note appended = create_appends [OF tx valid readTodos_clashDisk resolves]
  from appended [THEN conjunct1]
  have run: "post_todos testEnv (JObj [(''text'', JStr ''Buy milk'')]) clashDisk
       = (Inr (json_response 201 (newTodo testEnv ''Buy milk'')),
          \<lparr>DATA_FILE = Readable (JSONText
             (JSON_stringify (JArr [clashTodo, newTodo testEnv ''Buy milk'']))),
           writeFile_calls = 1\<rparr>)"
    by (simp add: t calls del: JSON_stringify.simps)
  from appended [THEN conjunct2, THEN conjunct1, rule_format, OF items]
  have "readTodos (snd (post_todos testEnv (JObj [(''text'', JStr ''Buy milk'')]) clashDisk))
       = JArr [clashTodo, newTodo testEnv ''Buy milk'']"
    by (simp add: t)
  with run have "post_todos testEnv (JObj [(''text'', JStr ''Buy milk'')]) clashDisk
       = (Inr (json_response 201 (newTodo testEnv ''Buy milk'')),
          \<lparr>DATA_FILE = Readable (JSONText
             (JSON_stringify (JArr [clashTodo, newTodo testEnv ''Buy milk'']))),
           writeFile_calls = 1\<rparr>)"
    and "readTodos (snd (post_todos testEnv (JObj [(''text'', JStr ''Buy milk'')]) clashDisk))
       = JArr [clashTodo, newTodo testEnv ''Buy milk'']"
    by blast+
  with readTodos_clashDisk t n c show ?thesis
    by blast
qed

text \<open>
  C6. When the stored collection has an item with the identifier of the path, delete,
  when the write resolves, takes out the first such item and no other: the items before
  and after it stay in their order, the collection is one item shorter, the file holds
  the result, and the answer carries the item taken out and the confirmation message.
\<close>

theorem delete_removes_item:
  assumes stored: "readTodos d = JArr todos" "JNull \<notin> set todos"
    and known: "\<exists>todo\<in>set todos. has_id ident todo"
    and resolves: "writeFile e = Resolves"
  shows "\<exists>i<length todos.
           has_id ident (todos ! i) \<and> (\<forall>j<i. \<not> has_id ident (todos ! j))
           \<and> todos = take i todos @ todos ! i # drop (Suc i) todos
           \<and> Suc (length (take i todos @ drop (Suc i) todos)) = length todos
           \<and> delete_todos e ident d
               = (json_response 200
                    (JObj [(''message'', JStr ''Todo deleted successfully''), (''todo'', todos ! i)]),
                  \<lparr>DATA_FILE = Readable (JSONText
                     (JSON_stringify (JArr (take i todos @ drop (Suc i) todos)))),
                   writeFile_calls = Suc (writeFile_calls d)\<rparr>)
           \<and> (list_all plain todos \<longrightarrow>
                 readTodos (snd (delete_todos e ident d))
                   = JArr (take i todos @ drop (Suc i) todos))"
proof -
  from findIndex_id_present [OF stored(2) known]
  obtain i where i: "findIndex_id ident todos = Inr (Some i)" ..
  from findIndex_id_found [OF i]
  have found: "i < length todos" "has_id ident (todos ! i)" "\<forall>j<i. \<not> has_id ident (todos ! j)"
    by auto
  from found(1) have split: "todos = take i todos @ todos ! i # drop (Suc i) todos"
    by (rule id_take_nth_drop)
  from found(1) have len: "Suc (length (take i todos @ drop (Suc i) todos)) = length todos"
    by auto
  have run: "delete_todos e ident d
               = (json_response 200
                    (JObj [(''message'', JStr ''Todo deleted successfully''), (''todo'', todos ! i)]),
                  \<lparr>DATA_FILE = Readable (JSONText
                     (JSON_stringify (JArr (take i todos @ drop (Suc i) todos)))),
                   writeFile_calls = Suc (writeFile_calls d)\<rparr>)"
    by (simp add: delete_todos_def delete_try_def stored(1) i writeTodos_def resolves
        del: JSON_stringify.simps)
  have reread: "readTodos (snd (delete_todos e ident d)) = JArr (take i todos @ drop (Suc i) todos)"
    if "list_all plain todos"
  proof -
    from that have "plain (JArr (take i todos @ drop (Suc i) todos))"
      by (auto simp: list_all_iff dest: in_set_takeD in_set_dropD)
    then show ?thesis
      unfolding run snd_conv readTodos_written by (rule value_of_stringify)
  qed
  from found split len run reread show ?thesis by blast
qed

theorem delete_removes_item_witness:
  "delete_todos productionEnv ''test-id-2'' testDisk
     = (json_response 200
          (JObj [(''message'', JStr ''Todo deleted successfully''), (''todo'', testTodo2)]),
        \<lparr>DATA_FILE = Readable (JSONText (JSON_stringify (JArr [testTodo]))), writeFile_calls = 1\<rparr>)
   \<and> readTodos (snd (delete_todos productionEnv ''test-id-2'' testDisk)) = JArr [testTodo]"
proof -
  have objects: "JNull \<notin> set [testTodo, testTodo2]"
    by (simp add: testTodo_def testTodo2_def)
  have known: "\<exists>todo\<in>set [testTodo, testTodo2]. has_id ''test-id-2'' todo"
    by (simp add: has_id_def testTodo_def testTodo2_def)
  have resolves: "writeFile productionEnv = Resolves"
    by (simp add: productionEnv_def)
  have items: "list_all plain [testTodo, testTodo2]"
    by (simp add: plain_fixtures)
  have calls: "writeFile_calls testDisk = 0"
    by (simp add: testDisk_def)
  from delete_removes_item [OF readTodos_testDisk objects known resolves]
  obtain i where i: "i < length [testTodo, testTodo2]"
      "has_id ''test-id-2'' ([testTodo, testTodo2] ! i)"
      "delete_todos productionEnv ''test-id-2'' testDisk
         = (json_response 200
              (JObj [(''message'', JStr ''Todo deleted successfully''),
                     (''todo'', [testTodo, testTodo2] ! i)]),
            \<lparr>DATA_FILE = Readable (JSONText (JSON_stringify
               (JArr (take i [testTodo, testTodo2] @ drop (Suc i) [testTodo, testTodo2])))),
             writeFile_calls = Suc (writeFile_calls testDisk)\<rparr>)"
      "list_all plain [testTodo, testTodo2] \<longrightarrow>
         readTodos (snd (delete_todos productionEnv ''test-id-2'' testDisk))
           = JArr (take i [testTodo, testTodo2] @ drop (Suc i) [testTodo, testTodo2])"
    by (elim exE conjE) (rule that)
  from i(1) have "i = 0 \<or> i = 1" by auto
  with i(2) have "i = 1"
    by (auto simp: has_id_def testTodo_def)
  with i(3) calls have run:
    "delete_todos productionEnv ''test-id-2'' testDisk
     = (json_response 200
          (JObj [(''message'', JStr ''Todo deleted successfully''), (''todo'', testTodo2)]),
        \<lparr>DATA_FILE = Readable (JSONText (JSON_stringify (JArr [testTodo]))), writeFile_calls = 1\<rparr>)"
    by (simp del: JSON_stringify.simps)
  from i(4) items \<open>i = 1\<close>
  have "readTodos (snd (delete_todos productionEnv ''test-id-2'' testDisk)) = JArr [testTodo]"
    by simp
  with run show ?thesis ..
qed

section \<open>Update\<close>

text \<open>What a run of the update handler can come to: either it leaves the disk as it was
  and does not answer 200, or it has found the item, the text is absent or a string that
  is not blank, and the outcome is that of the second part of the handler; there, either
  a log line throws and the disk is as it was, or the outcome is that of the write.\<close>

lemma interpolate_throws: "interpolate v = Inl err \<Longrightarrow> err = TypeError"
  by (cases v) (auto split: if_splits)

lemma put_commit_outcome:
  assumes "put_commit e completed todos i d = (r, d')" and "todos ! i = JObj kvs"
  shows "(r = Inl TypeError \<and> d' = d)
         \<or> (\<exists>w. writeTodos e (JArr (todos[i :=
                   JObj (assign ''updatedAt'' (JStr (toISOString e))
                     (case completed of None \<Rightarrow> kvs | Some c \<Rightarrow> assign ''completed'' c kvs))])) d
                 = (w, d')
               \<and> r = (case w of
                        Inl err \<Rightarrow> Inl err
                      | Inr u \<Rightarrow> Inr (json_response 200
                          (JObj (assign ''updatedAt'' (JStr (toISOString e))
                             (case completed of None \<Rightarrow> kvs
                              | Some c \<Rightarrow> assign ''completed'' c kvs))))))"
proof (cases completed)
  case None
  with assms show ?thesis
    by (auto simp: put_commit_def split: prod.splits sum.splits)
next
  case (Some c)
  show ?thesis
  proof (cases "log_change e (JObj kvs) ''completed'' c")
    case (Inl err)
    then have "err = TypeError"
      by (auto simp: log_change_def split: if_splits sum.splits dest: interpolate_throws)
    with assms Some Inl show ?thesis
      by (simp add: put_commit_def)
  next
    case (Inr u)
    with assms Some show ?thesis
      by (auto simp: put_commit_def split: prod.splits sum.splits)
  qed
qed

lemma put_try_outcome:
  assumes "put_try e ident req_body d = (r, d')"
  shows "(d' = d \<and> (\<forall>res. r = Inr res \<longrightarrow> statusCode res \<noteq> 200))
         \<or> (\<exists>todos i kvs tx completed kvs1.
              readTodos d = JArr todos \<and> findIndex_id ident todos = Inr (Some i)
              \<and> todos ! i = JObj kvs
              \<and> get_prop req_body ''text'' = Inr tx
              \<and> get_prop req_body ''completed'' = Inr completed
              \<and> ((tx = None \<and> kvs1 = kvs)
                  \<or> (\<exists>s. tx = Some (JStr s) \<and> trim s \<noteq> []
                          \<and> kvs1 = assign ''text'' (JStr (trim s)) kvs))
              \<and> put_commit e completed (todos[i := JObj kvs1]) i d = (r, d'))"
proof (cases "get_prop req_body ''text''")
  case (Inl err)
  with assms show ?thesis by (auto simp: put_try_def)
next
  case tx: (Inr tx)
  show ?thesis
  proof (cases "get_prop req_body ''completed''")
    case (Inl err)
    with assms tx show ?thesis by (auto simp: put_try_def)
  next
    case completed: (Inr completed)
    show ?thesis
    proof (cases "\<exists>todos. readTodos d = JArr todos")
      case False
      with assms tx completed show ?thesis
        by (cases "readTodos d") (auto simp: put_try_def)
    next
      case True
      then obtain todos where todos: "readTodos d = JArr todos" ..
      show ?thesis
      proof (cases "findIndex_id ident todos")
        case (Inl err)
        with assms tx completed todos show ?thesis by (auto simp: put_try_def)
      next
        case (Inr found)
        show ?thesis
        proof (cases found)
          case None
          with assms tx completed todos Inr show ?thesis
            by (auto simp: put_try_def json_response_def)
        next
          case (Some i)
          with Inr have i: "findIndex_id ident todos = Inr (Some i)" by simp
          from findIndex_id_found [OF i] obtain kvs where kvs: "todos ! i = JObj kvs"
            by (auto simp: has_id_object)
          show ?thesis
          proof (cases tx)
            case None
            with assms tx completed todos i
            have "put_commit e completed todos i d = (r, d')"
              by (simp add: put_try_def)
            with kvs have "put_commit e completed (todos[i := JObj kvs]) i d = (r, d')"
              by (metis list_update_id)
            with tx completed todos i kvs None show ?thesis by blast
          next
            case (Some t)
            show ?thesis
            proof (cases "\<exists>s. t = JStr s")
              case False
              then have "call_trim t = Inl TypeError" by (cases t) auto
              with assms tx completed todos i Some show ?thesis
                by (auto simp: put_try_def)
            next
              case True
              then obtain s where s: "t = JStr s" ..
              show ?thesis
              proof (cases "trim s = []")
                case True
                with assms tx completed todos i Some s show ?thesis
                  by (auto simp: put_try_def json_response_def)
              next
                case False
                show ?thesis
                proof (cases "log_change e (todos ! i) ''text'' (JStr (trim s))")
                  case (Inl err)
                  with assms tx completed todos i Some s False show ?thesis
                    by (auto simp: put_try_def)
                next
                  case (Inr u)
                  with assms tx completed todos i Some s kvs False
                  have "put_commit e completed
                          (todos[i := JObj (assign ''text'' (JStr (trim s)) kvs)]) i d = (r, d')"
                    by (simp add: put_try_def)
                  with tx completed todos i kvs Some s False show ?thesis by blast
                qed
              qed
            qed
          qed
        qed
      qed
    qed
  qed
qed

lemma put_todos_success:
  assumes "put_todos e ident req_body d = (res, d')" and "statusCode res = 200"
  shows "\<exists>todos i kvs tx completed kvs1 new.
           readTodos d = JArr todos \<and> findIndex_id ident todos = Inr (Some i)
           \<and> todos ! i = JObj kvs
           \<and> get_prop req_body ''text'' = Inr tx
           \<and> get_prop req_body ''completed'' = Inr completed
           \<and> ((tx = None \<and> kvs1 = kvs)
               \<or> (\<exists>s. tx = Some (JStr s) \<and> trim s \<noteq> []
                       \<and> kvs1 = assign ''text'' (JStr (trim s)) kvs))
           \<and> new = assign ''updatedAt'' (JStr (toISOString e))
                     (case completed of None \<Rightarrow> kvs1 | Some c \<Rightarrow> assign ''completed'' c kvs1)
           \<and> writeFile e = Resolves
           \<and> res = json_response 200 (JObj new)
           \<and> d' = \<lparr>DATA_FILE = Readable (JSONText (JSON_stringify (JArr (todos[i := JObj new])))),
                    writeFile_calls = Suc (writeFile_calls d)\<rparr>"
proof -
  obtain r where r: "put_try e ident req_body d = (r, d')" and r_res: "r = Inr res"
    using assms
    by (cases "put_try e ident req_body d")
      (auto simp: put_todos_def json_response_def split: sum.splits)
  from put_try_outcome [OF r] r_res assms(2)
  obtain todos i kvs tx completed kvs1 where
    stored: "readTodos d = JArr todos" and i: "findIndex_id ident todos = Inr (Some i)"
    and kvs: "todos ! i = JObj kvs"
    and req: "get_prop req_body ''text'' = Inr tx" "get_prop req_body ''completed'' = Inr completed"
    and kvs1: "(tx = None \<and> kvs1 = kvs)
               \<or> (\<exists>s. tx = Some (JStr s) \<and> trim s \<noteq> []
                       \<and> kvs1 = assign ''text'' (JStr (trim s)) kvs)"
    and commit: "put_commit e completed (todos[i := JObj kvs1]) i d = (r, d')"
    by blast
  from findIndex_id_found [OF i] have len: "i < length todos" by simp
  then have at_i: "(todos[i := JObj kvs1]) ! i = JObj kvs1" by simp
  define new where "new = assign ''updatedAt'' (JStr (toISOString e))
                     (case completed of None \<Rightarrow> kvs1 | Some c \<Rightarrow> assign ''completed'' c kvs1)"
  from put_commit_outcome [OF commit at_i] r_res
  obtain w where w: "writeTodos e (JArr (todos[i := JObj new])) d = (w, d')"
    and answer: "Inr res = (case w of Inl err \<Rightarrow> Inl err
                            | Inr u \<Rightarrow> Inr (json_response 200 (JObj new)))"
    unfolding new_def by auto
  from answer have "res = json_response 200 (JObj new)" and "\<exists>u. w = Inr u"
    by (cases w; simp)+
  with w have "writeFile e = Resolves"
    and "d' = \<lparr>DATA_FILE = Readable (JSONText (JSON_stringify (JArr (todos[i := JObj new])))),
               writeFile_calls = Suc (writeFile_calls d)\<rparr>"
    by (cases "writeFile e"; auto simp: writeTodos_def simp del: JSON_stringify.simps)+
  with stored i kvs req kvs1 new_def \<open>res = json_response 200 (JObj new)\<close>
  show ?thesis by blast
qed

lemma log_change_quiet:
  assumes "logging e \<Longrightarrow> (\<forall>v. map_of kvs k = Some v \<longrightarrow> \<not> ToString_throws v) \<and> \<not> ToString_throws new"
  shows "log_change e (JObj kvs) k new = Inr ()"
proof (cases "logging e")
  case True
  with assms have "interpolate (map_of kvs k) = Inr ()" "interpolate (Some new) = Inr ()"
    by (cases "map_of kvs k"; simp)+
  with True show ?thesis by (simp add: log_change_def)
next
  case False
  then show ?thesis by (simp add: log_change_def)
qed

text \<open>Every update of a known identifier whose text is absent or not blank, with or
  without a \<^verbatim>\<open>completed\<close> of any kind, is answered with 200 when the write resolves and
  no log line throws: nothing is logged, or the values that are logged have a string.\<close>

lemma update_succeeds:
  assumes stored: "readTodos d = JArr todos" "JNull \<notin> set todos"
    and known: "\<exists>todo\<in>set todos. has_id ident todo"
    and tx: "get_prop req_body ''text'' = Inr None
             \<or> (\<exists>s. get_prop req_body ''text'' = Inr (Some (JStr s)) \<and> trim s \<noteq> [])"
    and quiet: "NODE_ENV e = Some ''test''
                \<or> ((\<forall>todo\<in>set todos. \<forall>k v. get_prop todo k = Inr (Some v) \<longrightarrow> \<not> ToString_throws v)
                    \<and> (\<forall>c. get_prop req_body ''completed'' = Inr (Some c) \<longrightarrow> \<not> ToString_throws c))"
    and resolves: "writeFile e = Resolves"
  shows "statusCode (fst (put_todos e ident req_body d)) = 200"
proof -
  from findIndex_id_present [OF stored(2) known]
  obtain i where i: "findIndex_id ident todos = Inr (Some i)" ..
  from findIndex_id_found [OF i] obtain kvs where kvs: "todos ! i = JObj kvs" and len: "i < length todos"
    by (auto simp: has_id_object)
  from len kvs have member: "JObj kvs \<in> set todos"
    by (metis nth_mem)
  from tx have "req_body \<noteq> JNull" by auto
  then obtain completed where c: "get_prop req_body ''completed'' = Inr completed"
    using get_prop_defined by blast
  have stored_printable: "\<not> ToString_throws v" if "logging e" "map_of kvs k = Some v" for k v
    using quiet member that by (auto simp: logging_def)
  have new_printable: "\<not> ToString_throws v" if "logging e" "completed = Some v" for v
    using quiet c that by (auto simp: logging_def)
  have commit: "statusCode (fst (case put_commit e completed (todos[i := JObj kvs1]) i d of
                    (Inr res, d') \<Rightarrow> (res, d')
                  | (Inl err, d') \<Rightarrow> (json_response 500 (error_body ''Failed to update todo''), d')))
                  = 200"
    if same: "map_of kvs1 ''completed'' = map_of kvs ''completed''" for kvs1
  proof (cases completed)
    case None
    then show ?thesis
      by (simp add: put_commit_def len writeTodos_def resolves json_response_def)
  next
    case (Some v)
    have "log_change e (JObj kvs1) ''completed'' v = Inr ()"
      using stored_printable new_printable Some same by (intro log_change_quiet) auto
    with Some show ?thesis
      by (simp add: put_commit_def len writeTodos_def resolves json_response_def)
  qed
  from tx show ?thesis
  proof
    assume absent: "get_prop req_body ''text'' = Inr None"
    from kvs have "todos[i := JObj kvs] = todos"
      by (metis list_update_id)
    with commit [of kvs] have "statusCode (fst (case put_commit e completed todos i d of
                    (Inr res, d') \<Rightarrow> (res, d')
                  | (Inl err, d') \<Rightarrow> (json_response 500 (error_body ''Failed to update todo''), d')))
                  = 200"
      by simp
    then show ?thesis
      by (simp add: put_todos_def put_try_def absent c stored(1) i)
  next
    assume "\<exists>s. get_prop req_body ''text'' = Inr (Some (JStr s)) \<and> trim s \<noteq> []"
    then obtain s where s: "get_prop req_body ''text'' = Inr (Some (JStr s))" "trim s \<noteq> []"
      by blast
    have "log_change e (JObj kvs) ''text'' (JStr (trim s)) = Inr ()"
      using stored_printable by (intro log_change_quiet) auto
    with commit [of "assign ''text'' (JStr (trim s)) kvs"] show ?thesis
      by (simp add: put_todos_def put_try_def s c stored(1) i kvs map_of_assign)
  qed
qed

text \<open>
  C4. Whenever an update is answered with status 200, the stored array held, at the first
  place with the identifier of the path, an item that is replaced in the file by the item
  of the answer, and every other place of the array holds what it held. In the new item
  \<^verbatim>\<open>updatedAt\<close> is the time of the clock; \<^verbatim>\<open>id\<close> and \<^verbatim>\<open>createdAt\<close> are as before; so is
  every property other than \<^verbatim>\<open>text\<close>, \<^verbatim>\<open>completed\<close> and \<^verbatim>\<open>updatedAt\<close>; \<^verbatim>\<open>text\<close> is
  as before when the request has none and the trimmed text of the request otherwise;
  \<^verbatim>\<open>completed\<close> is as before when the request has none and the value of the request
  otherwise. What is read from the file afterwards has as many items, and every other
  item whose numbers, if it has any, are finite doubles other than the negative zero is
  read as it was.
\<close>

theorem update_frame:
  assumes "put_todos e ident req_body d = (res, d')" and "statusCode res = 200"
  shows "\<exists>todos i old new.
           readTodos d = JArr todos \<and> i < length todos \<and> todos ! i = JObj old
           \<and> has_id ident (todos ! i) \<and> (\<forall>j<i. \<not> has_id ident (todos ! j))
           \<and> body res = JObj new
           \<and> DATA_FILE d' = Readable (JSONText (JSON_stringify (JArr (todos[i := JObj new]))))
           \<and> (list_all plain (todos[i := JObj new]) \<longrightarrow> readTodos d' = JArr (todos[i := JObj new]))
           \<and> map_of new ''updatedAt'' = Some (JStr (toISOString e))
           \<and> map_of new ''id'' = map_of old ''id''
           \<and> map_of new ''createdAt'' = map_of old ''createdAt''
           \<and> (\<forall>k. k \<noteq> ''text'' \<and> k \<noteq> ''completed'' \<and> k \<noteq> ''updatedAt''
                  \<longrightarrow> map_of new k = map_of old k)
           \<and> (get_prop req_body ''text'' = Inr None \<longrightarrow> map_of new ''text'' = map_of old ''text'')
           \<and> (\<forall>s. get_prop req_body ''text'' = Inr (Some (JStr s))
                  \<longrightarrow> map_of new ''text'' = Some (JStr (trim s)))
           \<and> (get_prop req_body ''completed'' = Inr None
                  \<longrightarrow> map_of new ''completed'' = map_of old ''completed'')
           \<and> (\<forall>c. get_prop req_body ''completed'' = Inr (Some c)
                  \<longrightarrow> map_of new ''completed'' = Some c)
           \<and> length (todos[i := JObj new]) = length todos
           \<and> (\<forall>j<length todos. j \<noteq> i \<longrightarrow> todos[i := JObj new] ! j = todos ! j)
           \<and> (\<exists>items. readTodos d' = JArr items \<and> length items = length todos
                  \<and> (\<forall>j<length todos. j \<noteq> i \<longrightarrow> plain (todos ! j) \<longrightarrow> items ! j = todos ! j))"
proof -
  from put_todos_success [OF assms]
  obtain todos i old tx completed kvs1 new where
    stored: "readTodos d = JArr todos" and i: "findIndex_id ident todos = Inr (Some i)"
    and old: "todos ! i = JObj old"
    and req: "get_prop req_body ''text'' = Inr tx" "get_prop req_body ''completed'' = Inr completed"
    and kvs1: "(tx = None \<and> kvs1 = old)
               \<or> (\<exists>s. tx = Some (JStr s) \<and> trim s \<noteq> []
                       \<and> kvs1 = assign ''text'' (JStr (trim s)) old)"
    and new: "new = assign ''updatedAt'' (JStr (toISOString e))
                     (case completed of None \<Rightarrow> kvs1 | Some c \<Rightarrow> assign ''completed'' c kvs1)"
    and res: "res = json_response 200 (JObj new)"
    and d': "d' = \<lparr>DATA_FILE = Readable (JSONText (JSON_stringify (JArr (todos[i := JObj new])))),
                   writeFile_calls = Suc (writeFile_calls d)\<rparr>"
    by (elim exE conjE) (rule that)
  from findIndex_id_found [OF i]
  have found: "i < length todos" "has_id ident (todos ! i)" "\<forall>j<i. \<not> has_id ident (todos ! j)"
    by auto
  have answer: "body res = JObj new"
    by (simp add: res json_response_def)
  have persisted: "DATA_FILE d' = Readable (JSONText (JSON_stringify (JArr (todos[i := JObj new]))))"
    by (simp add: d' del: JSON_stringify.simps)
  have reread: "readTodos d' = JArr (todos[i := JObj new])" if "list_all plain (todos[i := JObj new])"
  proof -
    from that have "plain (JArr (todos[i := JObj new]))" by simp
    then show ?thesis
      unfolding d' readTodos_written by (rule value_of_stringify)
  qed
  have stamp: "map_of new ''updatedAt'' = Some (JStr (toISOString e))"
    by (simp add: new map_of_assign)
  have new_k: "map_of new k = (case completed of None \<Rightarrow> map_of kvs1 k
                   | Some c \<Rightarrow> if k = ''completed'' then Some c else map_of kvs1 k)"
    if "k \<noteq> ''updatedAt''" for k
    using that by (cases completed) (simp_all add: new map_of_assign)
  have kvs1_k: "map_of kvs1 k = map_of old k" if "k \<noteq> ''text''" for k
    using kvs1 that by (auto simp: map_of_assign)
  have others: "map_of new k = map_of old k"
    if "k \<noteq> ''text''" "k \<noteq> ''completed''" "k \<noteq> ''updatedAt''" for k
    using that by (cases completed) (simp_all add: new_k kvs1_k)
  have text_kept: "map_of new ''text'' = map_of old ''text''" if "tx = None"
    using kvs1 that by (cases completed) (auto simp: new_k)
  have text_set: "map_of new ''text'' = Some (JStr (trim s))" if "tx = Some (JStr s)" for s
    using kvs1 that by (cases completed) (auto simp: new_k map_of_assign)
  have completed_kept: "map_of new ''completed'' = map_of old ''completed''" if "completed = None"
    using that by (simp add: new_k kvs1_k)
  have completed_set: "map_of new ''completed'' = Some c" if "completed = Some c" for c
    using that by (simp add: new_k)
  have rest: "\<forall>j<length todos. j \<noteq> i \<longrightarrow> todos[i := JObj new] ! j = todos ! j"
    by simp
  have items: "\<exists>items. readTodos d' = JArr items \<and> length items = length todos
                  \<and> (\<forall>j<length todos. j \<noteq> i \<longrightarrow> plain (todos ! j) \<longrightarrow> items ! j = todos ! j)"
  proof (intro exI conjI allI impI)
    show "readTodos d' = JArr (map (\<lambda>v. value_of (JSON_stringify v)) (todos[i := JObj new]))"
      by (simp add: d' readTodos_written comp_def)
    show "length (map (\<lambda>v. value_of (JSON_stringify v)) (todos[i := JObj new])) = length todos"
      by simp
    show "map (\<lambda>v. value_of (JSON_stringify v)) (todos[i := JObj new]) ! j = todos ! j"
      if "j < length todos" "j \<noteq> i" "plain (todos ! j)" for j
      using that by (simp add: value_of_stringify)
  qed
  from stored found old answer persisted reread stamp others [of "''id''"] others [of "''createdAt''"]
    others text_kept text_set completed_kept completed_set rest req items
  show ?thesis
    by (intro exI [of _ todos] exI [of _ i] exI [of _ old] exI [of _ new])
      (simp del: JSON_stringify.simps plain.simps)
qed

text \<open>The update \<^verbatim>\<open>{completed: true}\<close> of the first item of the sample collection, with the
  logging on, is answered with 200.\<close>

lemma testDisk_calls: "writeFile_calls testDisk = 0"
  by (simp add: testDisk_def)

lemma put_completed_testDisk:
  "put_todos productionEnv ''test-id-1'' (JObj [(''completed'', JBool True)]) testDisk
     = (json_response 200
          (JObj [(''id'', JStr ''test-id-1''),
                 (''text'', JStr ''Original todo''),
                 (''completed'', JBool True),
                 (''createdAt'', JStr ''2023-01-01T00:00:00.000Z''),
                 (''updatedAt'', JStr ''2023-11-14T22:13:20.000Z'')]),
        \<lparr>DATA_FILE = Readable (JSONText (JSON_stringify (JArr
           [JObj [(''id'', JStr ''test-id-1''),
                  (''text'', JStr ''Original todo''),
                  (''completed'', JBool True),
                  (''createdAt'', JStr ''2023-01-01T00:00:00.000Z''),
                  (''updatedAt'', JStr ''2023-11-14T22:13:20.000Z'')],
            testTodo2]))),
         writeFile_calls = 1\<rparr>)"
  by (simp add: put_todos_def put_try_def put_commit_def readTodos_testDisk testDisk_calls
      log_change_def logging_def writeTodos_def testTodo_def productionEnv_def
      del: JSON_stringify.simps)

theorem update_frame_witness:
  "statusCode (fst (put_todos productionEnv ''test-id-1'' (JObj [(''completed'', JBool True)]) testDisk))
     = 200
   \<and> (\<exists>new. body (fst (put_todos productionEnv ''test-id-1'' (JObj [(''completed'', JBool True)])
                          testDisk))
                = JObj new
         \<and> map_of new ''updatedAt'' = Some (JStr ''2023-11-14T22:13:20.000Z'')
         \<and> map_of new ''completed'' = Some (JBool True)
         \<and> map_of new ''text'' = Some (JStr ''Original todo'')
         \<and> map_of new ''id'' = Some (JStr ''test-id-1'')
         \<and> map_of new ''createdAt'' = Some (JStr ''2023-01-01T00:00:00.000Z'')
         \<and> DATA_FILE (snd (put_todos productionEnv ''test-id-1'' (JObj [(''completed'', JBool True)])
                              testDisk))
             = Readable (JSONText (JSON_stringify (JArr [JObj new, testTodo2]))))"
proof -
  obtain res d' where
    run: "put_todos productionEnv ''test-id-1'' (JObj [(''completed'', JBool True)]) testDisk
            = (res, d')"
    by (cases "put_todos productionEnv ''test-id-1'' (JObj [(''completed'', JBool True)]) testDisk")
  with put_completed_testDisk have ok: "statusCode res = 200"
    by (auto simp: json_response_def)
  from update_frame [OF run ok]
  obtain todos i old new where
    stored: "readTodos testDisk = JArr todos" and i: "i < length todos" "has_id ''test-id-1'' (todos ! i)"
      "\<forall>j<i. \<not> has_id ''test-id-1'' (todos ! j)"
    and old: "todos ! i = JObj old"
    and new: "body res = JObj new"
      "DATA_FILE d' = Readable (JSONText (JSON_stringify (JArr (todos[i := JObj new]))))"
      "map_of new ''updatedAt'' = Some (JStr (toISOString productionEnv))"
      "map_of new ''id'' = map_of old ''id''"
      "map_of new ''createdAt'' = map_of old ''createdAt''"
      "get_prop (JObj [(''completed'', JBool True)]) ''text'' = Inr None
         \<longrightarrow> map_of new ''text'' = map_of old ''text''"
      "\<forall>c. get_prop (JObj [(''completed'', JBool True)]) ''completed'' = Inr (Some c)
         \<longrightarrow> map_of new ''completed'' = Some c"
    by (elim exE conjE) (rule that)
  from stored have todos: "todos = [testTodo, testTodo2]"
    by (simp add: readTodos_testDisk)
  have first: "has_id ''test-id-1'' ([testTodo, testTodo2] ! 0)"
    by (simp add: has_id_def testTodo_def)
  with i(3) todos have "i = 0"
    by (cases i) auto
  with old todos have old: "old = [(''id'', JStr ''test-id-1''),
           (''text'', JStr ''Original todo''),
           (''completed'', JBool False),
           (''createdAt'', JStr ''2023-01-01T00:00:00.000Z'')]"
    by (simp add: testTodo_def)
  have stamp: "map_of new ''updatedAt'' = Some (JStr ''2023-11-14T22:13:20.000Z'')"
    using new(3) by (simp add: productionEnv_def)
  have completed: "map_of new ''completed'' = Some (JBool True)"
    using new(7) by simp
  have kept: "map_of new ''text'' = Some (JStr ''Original todo'')"
    "map_of new ''id'' = Some (JStr ''test-id-1'')"
    "map_of new ''createdAt'' = Some (JStr ''2023-01-01T00:00:00.000Z'')"
    using new(4,5,6) by (simp_all add: old)
  have persisted: "DATA_FILE d' = Readable (JSONText (JSON_stringify (JArr [JObj new, testTodo2])))"
    using new(2) \<open>i = 0\<close> todos by (simp del: JSON_stringify.simps)
  show ?thesis
    unfolding run fst_conv snd_conv
    using ok new(1) stamp completed kept persisted by blast
qed

section \<open>The type of \<^verbatim>\<open>completed\<close>\<close>

lemma map_of_reparse:
  "map_of (map (map_prod id value_of \<circ> map_prod id JSON_stringify) kvs) k
     = map_option (\<lambda>v. value_of (JSON_stringify v)) (map_of kvs k)"
  by (induction kvs) auto

lemma reparse_boolean: "value_of (JSON_stringify c) = JBool b \<longleftrightarrow> c = JBool b"
proof (cases c)
  case (JNum n)
  then show ?thesis by (cases n) auto
qed auto

lemma completed_is_boolean_reparse:
  "completed_is_boolean (value_of (JSON_stringify x)) \<longleftrightarrow> completed_is_boolean x"
proof (cases x)
  case (JNum n)
  then show ?thesis by (cases n) auto
next
  case (JObj kvs)
  show ?thesis
  proof (cases "map_of kvs ''completed''")
    case None
    with JObj show ?thesis by (simp add: map_of_reparse)
  next
    case (Some c)
    have "(\<exists>b. value_of (JSON_stringify c) = JBool b) \<longleftrightarrow> (\<exists>b. c = JBool b)"
      by (simp add: reparse_boolean)
    with JObj Some show ?thesis
      by (cases c; cases "value_of (JSON_stringify c)") (auto simp: map_of_reparse)
  qed
qed auto

lemma completed_invariant_written:
  "completed_invariant \<lparr>DATA_FILE = Readable (JSONText (JSON_stringify (JArr todos))),
                        writeFile_calls = n\<rparr>
     = list_all completed_is_boolean todos"
  by (simp add: completed_invariant_def readTodos_def list_all_iff completed_is_boolean_reparse)

lemma completed_invariant_stored:
  "completed_invariant d \<Longrightarrow> readTodos d = JArr todos \<Longrightarrow> list_all completed_is_boolean todos"
  by (simp add: completed_invariant_def)

text \<open>Whatever becomes of the write of an array of items with a boolean \<^verbatim>\<open>completed\<close>,
  the persisted collection is made of such items afterwards, if it was before.\<close>

lemma completed_invariant_writeTodos:
  assumes "completed_invariant d" and "list_all completed_is_boolean todos"
  shows "completed_invariant (snd (writeTodos e (JArr todos) d))"
proof (cases "writeFile e")
  case Rejects_untouched
  with assms(1) show ?thesis
    by (simp add: writeTodos_def completed_invariant_def readTodos_def)
next
  case (Rejects_cut_short left)
  then show ?thesis
    by (simp add: writeTodos_def completed_invariant_def readTodos_def)
qed (simp_all add: writeTodos_def completed_invariant_written assms(2) del: JSON_stringify.simps)

text \<open>A handler either leaves the disk as it was or leaves what the write of the array
  it has built leaves.\<close>

lemma post_todos_effect:
  "snd (post_todos e req_body d) = d
   \<or> (\<exists>todos trimmed. readTodos d = JArr todos
        \<and> snd (post_todos e req_body d)
            = snd (writeTodos e (JArr (todos @ [newTodo e trimmed])) d))"
  by (auto simp: post_todos_def post_try_def split: sum.splits option.splits json.splits prod.splits)
    (metis snd_conv)+

lemma delete_todos_effect:
  "snd (delete_todos e ident d) = d
   \<or> (\<exists>todos i. readTodos d = JArr todos
        \<and> snd (delete_todos e ident d)
            = snd (writeTodos e (JArr (take i todos @ drop (Suc i) todos)) d))"
  by (auto simp: delete_todos_def delete_try_def
      split: sum.splits option.splits json.splits prod.splits)
    (metis snd_conv)+

lemma put_todos_effect:
  assumes "put_todos e ident req_body d = (res, d')"
  shows "d' = d
         \<or> (\<exists>todos i kvs kvs1 completed.
              readTodos d = JArr todos \<and> i < length todos \<and> todos ! i = JObj kvs
              \<and> get_prop req_body ''completed'' = Inr completed
              \<and> map_of kvs1 ''completed'' = map_of kvs ''completed''
              \<and> d' = snd (writeTodos e (JArr (todos[i :=
                         JObj (assign ''updatedAt'' (JStr (toISOString e))
                           (case completed of None \<Rightarrow> kvs1
                            | Some c \<Rightarrow> assign ''completed'' c kvs1))])) d))"
proof -
  obtain r where r: "put_try e ident req_body d = (r, d')"
    using assms by (cases "put_try e ident req_body d") (auto simp: put_todos_def split: sum.splits)
  from put_try_outcome [OF r] show ?thesis
  proof
    assume "d' = d \<and> (\<forall>res. r = Inr res \<longrightarrow> statusCode res \<noteq> 200)"
    then show ?thesis by simp
  next
    assume "\<exists>todos i kvs tx completed kvs1.
              readTodos d = JArr todos \<and> findIndex_id ident todos = Inr (Some i)
              \<and> todos ! i = JObj kvs
              \<and> get_prop req_body ''text'' = Inr tx
              \<and> get_prop req_body ''completed'' = Inr completed
              \<and> ((tx = None \<and> kvs1 = kvs)
                  \<or> (\<exists>s. tx = Some (JStr s) \<and> trim s \<noteq> []
                          \<and> kvs1 = assign ''text'' (JStr (trim s)) kvs))
              \<and> put_commit e completed (todos[i := JObj kvs1]) i d = (r, d')"
    then obtain todos i kvs tx completed kvs1 where
      stored: "readTodos d = JArr todos" and i: "findIndex_id ident todos = Inr (Some i)"
      and kvs: "todos ! i = JObj kvs"
      and c: "get_prop req_body ''completed'' = Inr completed"
      and kvs1: "(tx = None \<and> kvs1 = kvs)
                  \<or> (\<exists>s. tx = Some (JStr s) \<and> trim s \<noteq> []
                          \<and> kvs1 = assign ''text'' (JStr (trim s)) kvs)"
      and commit: "put_commit e completed (todos[i := JObj kvs1]) i d = (r, d')"
      by blast
    from findIndex_id_found [OF i] have len: "i < length todos" by simp
    then have at_i: "(todos[i := JObj kvs1]) ! i = JObj kvs1" by simp
    from kvs1 have same: "map_of kvs1 ''completed'' = map_of kvs ''completed''"
      by (auto simp: map_of_assign)
    from put_commit_outcome [OF commit at_i] show ?thesis
    proof
      assume "r = Inl TypeError \<and> d' = d"
      then show ?thesis by simp
    next
      assume "\<exists>w. writeTodos e (JArr (todos[i := JObj kvs1, i :=
                   JObj (assign ''updatedAt'' (JStr (toISOString e))
                     (case completed of None \<Rightarrow> kvs1 | Some c \<Rightarrow> assign ''completed'' c kvs1))])) d
                 = (w, d')
               \<and> r = (case w of
                        Inl err \<Rightarrow> Inl err
                      | Inr u \<Rightarrow> Inr (json_response 200
                          (JObj (assign ''updatedAt'' (JStr (toISOString e))
                             (case completed of None \<Rightarrow> kvs1
                              | Some c \<Rightarrow> assign ''completed'' c kvs1)))))"
      then have "d' = snd (writeTodos e (JArr (todos[i :=
                         JObj (assign ''updatedAt'' (JStr (toISOString e))
                           (case completed of None \<Rightarrow> kvs1
                            | Some c \<Rightarrow> assign ''completed'' c kvs1))])) d)"
        by auto
      with stored len kvs c same show ?thesis by blast
    qed
  qed
qed

lemma completed_invariant_testDisk: "completed_invariant testDisk"
  by (simp add: completed_invariant_def readTodos_testDisk testTodo_def testTodo2_def)

lemma put_completed_yes_testDisk:
  "put_todos productionEnv ''test-id-1'' (JObj [(''completed'', JStr ''yes'')]) testDisk
       = (json_response 200
            (JObj [(''id'', JStr ''test-id-1''),
                   (''text'', JStr ''Original todo''),
                   (''completed'', JStr ''yes''),
                   (''createdAt'', JStr ''2023-01-01T00:00:00.000Z''),
                   (''updatedAt'', JStr ''2023-11-14T22:13:20.000Z'')]),
          \<lparr>DATA_FILE = Readable (JSONText (JSON_stringify (JArr
             [JObj [(''id'', JStr ''test-id-1''),
                    (''text'', JStr ''Original todo''),
                    (''completed'', JStr ''yes''),
                    (''createdAt'', JStr ''2023-01-01T00:00:00.000Z''),
                    (''updatedAt'', JStr ''2023-11-14T22:13:20.000Z'')],
              testTodo2]))),
           writeFile_calls = 1\<rparr>)"
  by (simp add: put_todos_def put_try_def put_commit_def readTodos_testDisk testDisk_calls
      log_change_def logging_def writeTodos_def testTodo_def productionEnv_def
      del: JSON_stringify.simps)

text \<open>
  C2, as stated, fails: the update handler assigns the \<^verbatim>\<open>completed\<close> of the request
  whatever its type. In the sample collection every item has a boolean \<^verbatim>\<open>completed\<close>;
  after the update \<^verbatim>\<open>{completed: "yes"}\<close>, answered with 200, the first item has the
  string \<^verbatim>\<open>yes\<close> there.
\<close>

theorem completed_not_boolean_counterexample:
  "completed_invariant testDisk
   \<and> put_todos productionEnv ''test-id-1'' (JObj [(''completed'', JStr ''yes'')]) testDisk
       = (json_response 200
            (JObj [(''id'', JStr ''test-id-1''),
                   (''text'', JStr ''Original todo''),
                   (''completed'', JStr ''yes''),
                   (''createdAt'', JStr ''2023-01-01T00:00:00.000Z''),
                   (''updatedAt'', JStr ''2023-11-14T22:13:20.000Z'')]),
          \<lparr>DATA_FILE = Readable (JSONText (JSON_stringify (JArr
             [JObj [(''id'', JStr ''test-id-1''),
                    (''text'', JStr ''Original todo''),
                    (''completed'', JStr ''yes''),
                    (''createdAt'', JStr ''2023-01-01T00:00:00.000Z''),
                    (''updatedAt'', JStr ''2023-11-14T22:13:20.000Z'')],
              testTodo2]))),
           writeFile_calls = 1\<rparr>)
   \<and> \<not> completed_invariant
         (snd (put_todos productionEnv ''test-id-1'' (JObj [(''completed'', JStr ''yes'')]) testDisk))"
proof -
  have after: "\<not> completed_invariant
         (snd (put_todos productionEnv ''test-id-1'' (JObj [(''completed'', JStr ''yes'')]) testDisk))"
    unfolding put_completed_yes_testDisk snd_conv completed_invariant_written by simp
  from completed_invariant_testDisk put_completed_yes_testDisk after show ?thesis
    by (intro conjI)
qed

text \<open>
  C2, amended. Create sets \<^verbatim>\<open>completed\<close> to false in the item that it makes and answers.
  An update that is answered with 200 assigns to the \<^verbatim>\<open>completed\<close> of the matched item
  the value that the request supplies, whatever its type, and persists the collection with
  that item: no type is checked. So that every item of the persisted collection has a
  boolean \<^verbatim>\<open>completed\<close> is preserved by create, by delete, and by every update whose
  \<^verbatim>\<open>completed\<close> is absent or a boolean; and it is broken by every update answered with
  200 whose \<^verbatim>\<open>completed\<close> is present and not a boolean.
\<close>

theorem completed_invariant_preserved:
  assumes inv: "completed_invariant d"
  shows "completed_invariant (snd (post_todos e post_body d))
         \<and> completed_invariant (snd (delete_todos e ident d))
         \<and> ((\<forall>c. get_prop put_body ''completed'' = Inr (Some c) \<longrightarrow> (\<exists>b. c = JBool b))
               \<longrightarrow> completed_invariant (snd (put_todos e ident put_body d)))
         \<and> get_prop (newTodo e trimmed) ''completed'' = Inr (Some (JBool False))
         \<and> (\<forall>res d'. post_todos e post_body d = (Inr res, d') \<and> statusCode res = 201
               \<longrightarrow> get_prop (body res) ''completed'' = Inr (Some (JBool False)))
         \<and> (\<forall>c. get_prop put_body ''completed'' = Inr (Some c)
                  \<and> statusCode (fst (put_todos e ident put_body d)) = 200
               \<longrightarrow> (\<exists>todos i new.
                      readTodos d = JArr todos \<and> i < length todos \<and> has_id ident (todos ! i)
                      \<and> body (fst (put_todos e ident put_body d)) = JObj new
                      \<and> map_of new ''completed'' = Some c
                      \<and> DATA_FILE (snd (put_todos e ident put_body d))
                          = Readable (JSONText (JSON_stringify (JArr (todos[i := JObj new]))))
                      \<and> ((\<forall>b. c \<noteq> JBool b)
                            \<longrightarrow> \<not> completed_invariant (snd (put_todos e ident put_body d)))))"
proof -
  have create: "completed_invariant (snd (post_todos e post_body d))"
    using post_todos_effect [of e post_body d]
  proof
    assume "snd (post_todos e post_body d) = d"
    with inv show ?thesis by simp
  next
    assume "\<exists>todos trimmed. readTodos d = JArr todos
              \<and> snd (post_todos e post_body d)
                  = snd (writeTodos e (JArr (todos @ [newTodo e trimmed])) d)"
    then obtain todos t where stored: "readTodos d = JArr todos"
      and d': "snd (post_todos e post_body d) = snd (writeTodos e (JArr (todos @ [newTodo e t])) d)"
      by blast
    from completed_invariant_stored [OF inv stored]
    have "list_all completed_is_boolean (todos @ [newTodo e t])"
      by (simp add: newTodo_def)
    with inv show ?thesis
      unfolding d' by (rule completed_invariant_writeTodos)
  qed
  have remove: "completed_invariant (snd (delete_todos e ident d))"
    using delete_todos_effect [of e ident d]
  proof
    assume "snd (delete_todos e ident d) = d"
    with inv show ?thesis by simp
  next
    assume "\<exists>todos i. readTodos d = JArr todos
              \<and> snd (delete_todos e ident d)
                  = snd (writeTodos e (JArr (take i todos @ drop (Suc i) todos)) d)"
    then obtain todos i where stored: "readTodos d = JArr todos"
      and d': "snd (delete_todos e ident d)
                  = snd (writeTodos e (JArr (take i todos @ drop (Suc i) todos)) d)"
      by blast
    from completed_invariant_stored [OF inv stored]
    have "list_all completed_is_boolean (take i todos @ drop (Suc i) todos)"
      by (auto simp: list_all_iff dest: in_set_takeD in_set_dropD)
    with inv show ?thesis
      unfolding d' by (rule completed_invariant_writeTodos)
  qed
  obtain res d' where run: "put_todos e ident put_body d = (res, d')"
    by (cases "put_todos e ident put_body d")
  have update: "completed_invariant d'"
    if boolean: "\<forall>c. get_prop put_body ''completed'' = Inr (Some c) \<longrightarrow> (\<exists>b. c = JBool b)"
    using put_todos_effect [OF run]
  proof
    assume "d' = d"
    with inv show ?thesis by simp
  next
    assume "\<exists>todos i kvs kvs1 completed.
              readTodos d = JArr todos \<and> i < length todos \<and> todos ! i = JObj kvs
              \<and> get_prop put_body ''completed'' = Inr completed
              \<and> map_of kvs1 ''completed'' = map_of kvs ''completed''
              \<and> d' = snd (writeTodos e (JArr (todos[i :=
                         JObj (assign ''updatedAt'' (JStr (toISOString e))
                           (case completed of None \<Rightarrow> kvs1
                            | Some c \<Rightarrow> assign ''completed'' c kvs1))])) d)"
    then obtain todos i kvs kvs1 completed where
      stored: "readTodos d = JArr todos" and len: "i < length todos" and kvs: "todos ! i = JObj kvs"
      and c: "get_prop put_body ''completed'' = Inr completed"
      and same: "map_of kvs1 ''completed'' = map_of kvs ''completed''"
      and d': "d' = snd (writeTodos e (JArr (todos[i :=
                         JObj (assign ''updatedAt'' (JStr (toISOString e))
                           (case completed of None \<Rightarrow> kvs1
                            | Some c \<Rightarrow> assign ''completed'' c kvs1))])) d)"
      by blast
    from completed_invariant_stored [OF inv stored] have all: "list_all completed_is_boolean todos" .
    with kvs len have "completed_is_boolean (JObj kvs)"
      by (metis list_all_length)
    then obtain b0 where b0: "map_of kvs ''completed'' = Some (JBool b0)"
      by (auto split: option.splits json.splits)
    have "completed_is_boolean
            (JObj (assign ''updatedAt'' (JStr (toISOString e))
               (case completed of None \<Rightarrow> kvs1 | Some c \<Rightarrow> assign ''completed'' c kvs1)))"
    proof (cases completed)
      case None
      with same b0 show ?thesis by (simp add: map_of_assign)
    next
      case (Some v)
      with c boolean obtain b where "v = JBool b" by blast
      with Some show ?thesis by (simp add: map_of_assign)
    qed
    with all have "list_all completed_is_boolean (todos[i :=
                         JObj (assign ''updatedAt'' (JStr (toISOString e))
                           (case completed of None \<Rightarrow> kvs1
                            | Some c \<Rightarrow> assign ''completed'' c kvs1))])"
      by (auto simp: list_all_iff dest: set_update_subset_insert [THEN subsetD])
    with inv show ?thesis
      unfolding d' by (rule completed_invariant_writeTodos)
  qed
  have stored_as_is:
    "\<exists>todos i new.
        readTodos d = JArr todos \<and> i < length todos \<and> has_id ident (todos ! i)
        \<and> body res = JObj new \<and> map_of new ''completed'' = Some c
        \<and> DATA_FILE d' = Readable (JSONText (JSON_stringify (JArr (todos[i := JObj new]))))
        \<and> ((\<forall>b. c \<noteq> JBool b) \<longrightarrow> \<not> completed_invariant d')"
    if supplied: "get_prop put_body ''completed'' = Inr (Some c)" and ok: "statusCode res = 200"
    for c
  proof -
    from put_todos_success [OF run ok]
    obtain todos i kvs tx completed kvs1 new where
      stored: "readTodos d = JArr todos" and i: "findIndex_id ident todos = Inr (Some i)"
      and c: "get_prop put_body ''completed'' = Inr completed"
      and new_def: "new = assign ''updatedAt'' (JStr (toISOString e))
                     (case completed of None \<Rightarrow> kvs1 | Some c \<Rightarrow> assign ''completed'' c kvs1)"
      and res: "res = json_response 200 (JObj new)"
      and d': "d' = \<lparr>DATA_FILE = Readable (JSONText (JSON_stringify (JArr (todos[i := JObj new])))),
                     writeFile_calls = Suc (writeFile_calls d)\<rparr>"
      by (elim exE conjE) (rule that)
    from findIndex_id_found [OF i] have found: "i < length todos" "has_id ident (todos ! i)"
      by auto
    from c supplied have "completed = Some c" by simp
    then have new_c: "map_of new ''completed'' = Some c"
      by (simp add: new_def map_of_assign)
    have "\<not> completed_invariant d'" if "\<forall>b. c \<noteq> JBool b"
    proof -
      from that new_c have "\<not> completed_is_boolean (JObj new)"
        by (cases c) auto
      moreover from found(1) have "JObj new \<in> set (todos[i := JObj new])"
        by (rule set_update_memI)
      ultimately have "\<not> list_all completed_is_boolean (todos[i := JObj new])"
        unfolding list_all_iff by blast
      then show ?thesis
        unfolding d' completed_invariant_written .
    qed
    moreover have "body res = JObj new"
      by (simp add: res json_response_def)
    moreover have "DATA_FILE d' = Readable (JSONText (JSON_stringify (JArr (todos[i := JObj new]))))"
      by (simp add: d' del: JSON_stringify.simps)
    ultimately show ?thesis
      using stored found new_c by blast
  qed
  have made: "get_prop (newTodo e t) ''completed'' = Inr (Some (JBool False))" for t
    by (simp add: newTodo_def)
  have created: "get_prop (body res') ''completed'' = Inr (Some (JBool False))"
    if "post_todos e post_body d = (Inr res', d'')" "statusCode res' = 201" for res' d''
  proof -
    from that obtain t where "res' = json_response 201 (newTodo e t)"
      by (auto simp: post_todos_def post_try_def json_response_def
          split: sum.splits option.splits json.splits prod.splits if_splits)
    with made show ?thesis by (simp add: json_response_def)
  qed
  have part1: "completed_invariant (snd (post_todos e post_body d))
         \<and> completed_invariant (snd (delete_todos e ident d))
         \<and> ((\<forall>c. get_prop put_body ''completed'' = Inr (Some c) \<longrightarrow> (\<exists>b. c = JBool b))
               \<longrightarrow> completed_invariant (snd (put_todos e ident put_body d)))
         \<and> get_prop (newTodo e trimmed) ''completed'' = Inr (Some (JBool False))"
    using create remove update made unfolding run snd_conv by blast
  have part2: "\<forall>res d'. post_todos e post_body d = (Inr res, d') \<and> statusCode res = 201
               \<longrightarrow> get_prop (body res) ''completed'' = Inr (Some (JBool False))"
    using created by blast
  have part3: "\<forall>c. get_prop put_body ''completed'' = Inr (Some c)
                  \<and> statusCode (fst (put_todos e ident put_body d)) = 200
               \<longrightarrow> (\<exists>todos i new.
                      readTodos d = JArr todos \<and> i < length todos \<and> has_id ident (todos ! i)
                      \<and> body (fst (put_todos e ident put_body d)) = JObj new
                      \<and> map_of new ''completed'' = Some c
                      \<and> DATA_FILE (snd (put_todos e ident put_body d))
                          = Readable (JSONText (JSON_stringify (JArr (todos[i := JObj new]))))
                      \<and> ((\<forall>b. c \<noteq> JBool b)
                            \<longrightarrow> \<not> completed_invariant (snd (put_todos e ident put_body d))))"
    using stored_as_is unfolding run fst_conv snd_conv by blast
  from part1 part2 part3 show ?thesis
    by (elim conjE) (intro conjI; assumption)
qed

theorem completed_invariant_preserved_witness:
  "completed_invariant testDisk
   \<and> statusCode (fst (put_todos productionEnv ''test-id-1'' (JObj [(''completed'', JBool True)])
                        testDisk)) = 200
   \<and> completed_invariant
        (snd (post_todos productionEnv (JObj [(''text'', JStr ''New test todo'')]) testDisk))
   \<and> completed_invariant (snd (delete_todos productionEnv ''test-id-1'' testDisk))
   \<and> completed_invariant
        (snd (put_todos productionEnv ''test-id-1'' (JObj [(''completed'', JBool True)]) testDisk))"
proof -
  have boolean: "\<forall>c. get_prop (JObj [(''completed'', JBool True)]) ''completed'' = Inr (Some c)
                   \<longrightarrow> (\<exists>b. c = JBool b)"
    by auto
  have ok: "statusCode (fst (put_todos productionEnv ''test-id-1'' (JObj [(''completed'', JBool True)])
                               testDisk)) = 200"
    by (simp add: put_completed_testDisk json_response_def)
  from completed_invariant_preserved [OF completed_invariant_testDisk,
      of productionEnv "JObj [(''text'', JStr ''New test todo'')]" "''test-id-1''"
         "JObj [(''completed'', JBool True)]" "''New test todo''"]
    completed_invariant_testDisk boolean ok
  show ?thesis by blast
qed

end
